theory Spec2Isabelle
  imports Main "HOL-Library.Word"
begin

section \<open>JavaScript strings\<close>

text \<open>
  A JavaScript string is a sequence of UTF-16 code units: \<open>length\<close> counts code units and
  \<open>slice\<close> cuts between them. The model keeps exactly that: a string is a list of 16-bit
  words. \<open>ascii\<close> embeds a literal of the theory; the one non-ASCII character of the
  sources, the horizontal ellipsis U+2026, is the code unit \<open>ellipsis\<close>.
\<close>

type_synonym jsstring = "16 word list"

definition ascii :: "string \<Rightarrow> jsstring" where
  "ascii s = map (\<lambda>c. word_of_nat (of_char c)) s"

definition ellipsis :: "16 word" where
  "ellipsis = 0x2026"

text \<open>\<open>parts.join(sep)\<close> on an array of strings.\<close>

fun join :: "jsstring \<Rightarrow> jsstring list \<Rightarrow> jsstring" where
  "join sep [] = []"
| "join sep [x] = x"
| "join sep (x # y # ys) = x @ sep @ join sep (y # ys)"

text \<open>
  The counters of this program are JavaScript numbers that only ever hold integers (they
  are produced by \<open>++\<close>, \<open>.length\<close> and \<open>Date.now()\<close>); the model uses \<open>int\<close>.
  \<open>String_int\<close> is the decimal rendering a template literal gives such a number (for
  magnitudes below \<open>10^21\<close>, where JavaScript switches to exponent notation; the
  counters, bounded by the number of items and plan steps, stay far below).
\<close>

definition digit :: "nat \<Rightarrow> 16 word" where
  "digit d = word_of_nat (48 + d)"

fun digits :: "nat \<Rightarrow> jsstring" where
  "digits n = (if n < 10 then [digit n] else digits (n div 10) @ [digit (n mod 10)])"

declare digits.simps [simp del]

definition String_int :: "int \<Rightarrow> jsstring" where
  "String_int i = (if i < 0 then ascii ''-'' @ digits (nat (- i)) else digits (nat i))"

section \<open>Activity snapshots and the TL;DR summary\<close>

record ActivitySnapshot =
  messageCount :: int
  toolCallCount :: int
  diffCount :: int
  planCompleted :: int

record HandoffBaseline =
  openedAt :: int
  activity :: ActivitySnapshot

text \<open>
  \<open>buildCurrentSummary\<close>: the array \<open>parts\<close> is threaded through the three conditional
  pushes in source order.
\<close>

definition buildCurrentSummary :: "ActivitySnapshot \<Rightarrow> jsstring" where
  "buildCurrentSummary current =
    (let parts0 = [];
         parts1 = (if planCompleted current > 0
                   then parts0 @ [String_int (planCompleted current) @ ascii '' task''
                                  @ (if planCompleted current = 1 then [] else ascii ''s'')
                                  @ ascii '' done'']
                   else parts0);
         parts2 = (if diffCount current > 0
                   then parts1 @ [String_int (diffCount current) @ ascii '' file''
                                  @ (if diffCount current = 1 then [] else ascii ''s'')
                                  @ ascii '' changed'']
                   else parts1);
         parts3 = (if messageCount current > 0 \<and> length parts2 = 0
                   then parts2 @ [String_int (messageCount current) @ ascii '' response''
                                  @ (if messageCount current = 1 then [] else ascii ''s'')]
                   else parts2)
     in if length parts3 > 0 then join (ascii '', '') parts3 else ascii ''Session active'')"

text \<open>
  \<open>buildSummary\<close>: \<open>null\<close> is \<open>None\<close>, both for the baseline and for the result.
\<close>

definition buildSummary ::
  "HandoffBaseline option \<Rightarrow> ActivitySnapshot \<Rightarrow> bool \<Rightarrow> bool \<Rightarrow> bool \<Rightarrow> jsstring option" where
  "buildSummary baseline current isProcessing hasPendingApproval hasItems =
    (if \<not> hasItems then None
     else case baseline of
       None \<Rightarrow> Some (buildCurrentSummary current)
     | Some b \<Rightarrow>
        (let msgDelta = messageCount current - messageCount (activity b);
             toolDelta = toolCallCount current - toolCallCount (activity b);
             diffDelta = diffCount current - diffCount (activity b);
             planDelta = planCompleted current - planCompleted (activity b)
         in if msgDelta = 0 \<and> toolDelta = 0 \<and> diffDelta = 0 \<and> planDelta = 0
            then (if isProcessing then Some (ascii ''Working'' @ [ellipsis])
                  else if hasPendingApproval then Some (ascii ''Waiting for approval'')
                  else Some (ascii ''No new activity''))
            else
              (let parts0 = [];
                   parts1 = (if planDelta > 0
                             then parts0 @ [String_int planDelta @ ascii '' task''
                                            @ (if planDelta = 1 then [] else ascii ''s'')
                                            @ ascii '' done'']
                             else parts0);
                   parts2 = (if diffDelta > 0
                             then parts1 @ [String_int diffDelta @ ascii '' file''
                                            @ (if diffDelta = 1 then [] else ascii ''s'')
                                            @ ascii '' changed'']
                             else parts1);
                   parts3 = (if toolDelta > 0 \<and> diffDelta = 0
                             then parts2 @ [String_int toolDelta @ ascii '' action''
                                            @ (if toolDelta = 1 then [] else ascii ''s'')]
                             else parts2);
                   parts4 = (if msgDelta > 0 \<and> length parts3 = 0
                             then parts3 @ [String_int msgDelta @ ascii '' response''
                                            @ (if msgDelta = 1 then [] else ascii ''s'')]
                             else parts3)
               in if length parts4 = 0
                  then (if isProcessing then Some (ascii ''Working'' @ [ellipsis])
                        else Some (ascii ''Caught up''))
                  else Some (join (ascii '', '') parts4))))"


section \<open>Conversation items and the session state\<close>

text \<open>
  \<open>ConversationItem\<close> is a union of object types discriminated by \<open>kind\<close>. The reducer
  merges two items with an object spread (\<open>{ ...old, ...new }\<close>), which can leave
  properties of the old kind on an item of the new kind, so an item is modelled as what
  it is at run time: an object with \<open>id\<close> and \<open>kind\<close> and the other properties either
  present or absent (\<open>None\<close>). Field names carry a prefix per record (\<open>i_\<close> for items,
  \<open>c_\<close> for file changes, \<open>s_\<close> for session summaries).
\<close>

datatype ItemKind = KindMessage | KindReasoning | KindDiff | KindReview | KindTool

datatype Role = User | Assistant

datatype ReviewState = ReviewStarted | ReviewCompleted

record FileChange =
  c_path :: jsstring
  c_kind :: "jsstring option"
  c_diff :: "jsstring option"

record ConversationItem =
  i_id :: jsstring
  i_kind :: ItemKind
  i_role :: "Role option"
  i_text :: "jsstring option"
  i_summary :: "jsstring option"
  i_content :: "jsstring option"
  i_title :: "jsstring option"
  i_diff :: "jsstring option"
  i_status :: "jsstring option"
  i_state :: "ReviewState option"
  i_toolType :: "jsstring option"
  i_detail :: "jsstring option"
  i_output :: "jsstring option"
  i_changes :: "FileChange list option"

text \<open>An object literal with only \<open>id\<close> and \<open>kind\<close>; the other properties are added by update.\<close>

definition item :: "jsstring \<Rightarrow> ItemKind \<Rightarrow> ConversationItem" where
  "item iid k = \<lparr>i_id = iid, i_kind = k, i_role = None, i_text = None, i_summary = None,
                 i_content = None, i_title = None, i_diff = None, i_status = None,
                 i_state = None, i_toolType = None, i_detail = None, i_output = None,
                 i_changes = None\<rparr>"

text \<open>\<open>{ ...old, ...new }\<close>: every property present in \<open>new\<close> wins, the others stay.\<close>

definition orElse :: "'a option \<Rightarrow> 'a option \<Rightarrow> 'a option" where
  "orElse new old = (case new of Some v \<Rightarrow> Some v | None \<Rightarrow> old)"

definition spread :: "ConversationItem \<Rightarrow> ConversationItem \<Rightarrow> ConversationItem" where
  "spread old new =
     \<lparr>i_id = i_id new, i_kind = i_kind new,
      i_role = orElse (i_role new) (i_role old),
      i_text = orElse (i_text new) (i_text old),
      i_summary = orElse (i_summary new) (i_summary old),
      i_content = orElse (i_content new) (i_content old),
      i_title = orElse (i_title new) (i_title old),
      i_diff = orElse (i_diff new) (i_diff old),
      i_status = orElse (i_status new) (i_status old),
      i_state = orElse (i_state new) (i_state old),
      i_toolType = orElse (i_toolType new) (i_toolType old),
      i_detail = orElse (i_detail new) (i_detail old),
      i_output = orElse (i_output new) (i_output old),
      i_changes = orElse (i_changes new) (i_changes old)\<rparr>"

datatype TurnPlanStepStatus = StepPending | StepInProgress | StepCompleted

record TurnPlanStep =
  step :: jsstring
  step_status :: TurnPlanStepStatus

record TurnPlan =
  turnId :: jsstring
  explanation :: "jsstring option"
  steps :: "TurnPlanStep list"

record SessionSummary =
  s_id :: jsstring
  s_title :: jsstring

text \<open>
  A status entry is built by spreading the old entry (possibly \<open>undefined\<close>) and setting
  one flag, so either flag can be absent. Each \<open>Record<string, T>\<close> of the state is a map
  from ids to values: a missing key reads as \<open>undefined\<close> (\<open>None\<close>); ids are not names
  that a JavaScript object inherits from its prototype.
\<close>

record SessionStatus =
  isProcessing :: "bool option"
  hasUnread :: "bool option"

record SessionState =
  activeSessionIdByWorkspace :: "jsstring \<rightharpoonup> jsstring option"
  itemsBySession :: "jsstring \<rightharpoonup> ConversationItem list"
  sessionsByWorkspace :: "jsstring \<rightharpoonup> SessionSummary list"
  sessionStatusById :: "jsstring \<rightharpoonup> SessionStatus"
  sessionListLoadingByWorkspace :: "jsstring \<rightharpoonup> bool"
  planBySession :: "jsstring \<rightharpoonup> TurnPlan option"

datatype SessionAction =
    SetActiveSessionId jsstring "jsstring option"
  | EnsureSession jsstring jsstring "jsstring option"
  | RemoveSession jsstring jsstring
  | ClearWorkspaceSessions jsstring
  | MarkProcessing jsstring bool
  | MarkUnread jsstring bool
  | AddUserMessage jsstring jsstring jsstring
  | AppendAssistantDelta jsstring jsstring jsstring
  | AppendReasoningDelta jsstring jsstring jsstring
  | AppendToolOutput jsstring jsstring jsstring
  | SetToolStatus jsstring jsstring jsstring
  | AppendToolChanges jsstring jsstring "FileChange list"
  | UpsertItem jsstring ConversationItem
  | SetSessionItems jsstring "ConversationItem list"
  | SetSessions jsstring "SessionSummary list"
  | SetSessionListLoading jsstring bool
  | SetSessionPlan jsstring "TurnPlan option"
  | SetSessionTitle jsstring jsstring jsstring

definition MAX_ITEMS_PER_SESSION :: int where
  "MAX_ITEMS_PER_SESSION = 400"

definition initialState :: SessionState where
  "initialState = \<lparr>activeSessionIdByWorkspace = Map.empty, itemsBySession = Map.empty,
                    sessionsByWorkspace = Map.empty, sessionStatusById = Map.empty,
                    sessionListLoadingByWorkspace = Map.empty, planBySession = Map.empty\<rparr>"

subsection \<open>Array helpers\<close>

text \<open>
  \<open>xs.slice(start)\<close>: a negative start counts from the end and is clamped at the front.
  \<open>xs.findIndex(p)\<close>: \<open>None\<close> stands for the result \<open>-1\<close>.
  \<open>m[k] || []\<close>: a missing key reads as the empty array.
\<close>

definition slice_from :: "int \<Rightarrow> 'a list \<Rightarrow> 'a list" where
  "slice_from start xs =
     drop (if start < 0 then nat (int (length xs) + start) else nat start) xs"

fun findIndex :: "('a \<Rightarrow> bool) \<Rightarrow> 'a list \<Rightarrow> nat option" where
  "findIndex p [] = None"
| "findIndex p (x # xs) =
     (if p x then Some 0 else map_option Suc (findIndex p xs))"

definition orEmpty :: "'a list option \<Rightarrow> 'a list" where
  "orEmpty v = (case v of None \<Rightarrow> [] | Some xs \<Rightarrow> xs)"

definition setItems :: "SessionState \<Rightarrow> jsstring \<Rightarrow> ConversationItem list \<Rightarrow> SessionState" where
  "setItems st sessionId items = st\<lparr>itemsBySession := (itemsBySession st)(sessionId \<mapsto> items)\<rparr>"

text \<open>
  The branch shared by every action that adds an item:
  \<open>[...items.slice(-MAX_ITEMS_PER_SESSION + 1), newItem]\<close>.
\<close>

definition appendItem :: "SessionState \<Rightarrow> jsstring \<Rightarrow> ConversationItem list \<Rightarrow> ConversationItem \<Rightarrow> SessionState" where
  "appendItem st sessionId items newItem =
     setItems st sessionId (slice_from (- MAX_ITEMS_PER_SESSION + 1) items @ [newItem])"

text \<open>The loop of \<open>clearWorkspaceSessions\<close>: one \<open>delete\<close> on each of the three maps per session.\<close>

fun clearLoop ::
  "SessionSummary list \<Rightarrow>
   (jsstring \<rightharpoonup> ConversationItem list) \<times> (jsstring \<rightharpoonup> SessionStatus) \<times> (jsstring \<rightharpoonup> TurnPlan option) \<Rightarrow>
   (jsstring \<rightharpoonup> ConversationItem list) \<times> (jsstring \<rightharpoonup> SessionStatus) \<times> (jsstring \<rightharpoonup> TurnPlan option)" where
  "clearLoop [] maps = maps"
| "clearLoop (session # rest) (newItemsBySession, newSessionStatusById, newPlanBySession) =
     clearLoop rest (newItemsBySession(s_id session := None),
                     newSessionStatusById(s_id session := None),
                     newPlanBySession(s_id session := None))"


subsection \<open>The reducer\<close>

text \<open>
  \<open>sessionReducer\<close>, one equation per \<open>case\<close> of the switch. The reducer reads the clock
  once, in \<open>addUserMessage\<close> (\<open>Date.now()\<close>); the reading is the argument \<open>now\<close>.
  An \<open>undefined\<close> operand of string \<open>+\<close> is rendered as the text \<open>undefined\<close>, as
  JavaScript does.
\<close>

definition sessionItems :: "SessionState \<Rightarrow> jsstring \<Rightarrow> ConversationItem list" where
  "sessionItems st sessionId = orEmpty (itemsBySession st sessionId)"

definition workspaceSessions :: "SessionState \<Rightarrow> jsstring \<Rightarrow> SessionSummary list" where
  "workspaceSessions st workspaceId = orEmpty (sessionsByWorkspace st workspaceId)"

definition orUndefined :: "jsstring option \<Rightarrow> jsstring" where
  "orUndefined v = (case v of None \<Rightarrow> ascii ''undefined'' | Some s \<Rightarrow> s)"

definition statusEntry :: "SessionState \<Rightarrow> jsstring \<Rightarrow> SessionStatus" where
  "statusEntry st sessionId =
     (case sessionStatusById st sessionId of
        None \<Rightarrow> \<lparr>isProcessing = None, hasUnread = None\<rparr>
      | Some e \<Rightarrow> e)"

fun sessionReducer :: "int \<Rightarrow> SessionState \<Rightarrow> SessionAction \<Rightarrow> SessionState" where
  "sessionReducer now st (SetActiveSessionId workspaceId sessionId) =
     st\<lparr>activeSessionIdByWorkspace := (activeSessionIdByWorkspace st)(workspaceId \<mapsto> sessionId)\<rparr>"
| "sessionReducer now st (EnsureSession workspaceId sessionId title) =
     (let existing = workspaceSessions st workspaceId
      in if list_ex (\<lambda>s. s_id s = sessionId) existing then st
         else st\<lparr>sessionsByWorkspace := (sessionsByWorkspace st)(workspaceId \<mapsto>
                existing @ [\<lparr>s_id = sessionId,
                              s_title = (case title of
                                           None \<Rightarrow> ascii ''New Session''
                                         | Some t \<Rightarrow> if t = [] then ascii ''New Session'' else t)\<rparr>])\<rparr>)"
| "sessionReducer now st (RemoveSession workspaceId sessionId) =
     (let sessions = workspaceSessions st workspaceId
      in st\<lparr>sessionsByWorkspace := (sessionsByWorkspace st)(workspaceId \<mapsto>
             filter (\<lambda>s. s_id s \<noteq> sessionId) sessions)\<rparr>)"
| "sessionReducer now st (ClearWorkspaceSessions workspaceId) =
     (let oldSessions = workspaceSessions st workspaceId
      in case clearLoop oldSessions (itemsBySession st, sessionStatusById st, planBySession st) of
           (newItemsBySession, newSessionStatusById, newPlanBySession) \<Rightarrow>
             st\<lparr>activeSessionIdByWorkspace := (activeSessionIdByWorkspace st)(workspaceId \<mapsto> None),
                sessionsByWorkspace := (sessionsByWorkspace st)(workspaceId \<mapsto> []),
                itemsBySession := newItemsBySession,
                sessionStatusById := newSessionStatusById,
                planBySession := newPlanBySession\<rparr>)"
| "sessionReducer now st (MarkProcessing sessionId b) =
     st\<lparr>sessionStatusById := (sessionStatusById st)(sessionId \<mapsto>
          (statusEntry st sessionId)\<lparr>isProcessing := Some b\<rparr>)\<rparr>"
| "sessionReducer now st (MarkUnread sessionId b) =
     st\<lparr>sessionStatusById := (sessionStatusById st)(sessionId \<mapsto>
          (statusEntry st sessionId)\<lparr>hasUnread := Some b\<rparr>)\<rparr>"
| "sessionReducer now st (AddUserMessage workspaceId sessionId txt) =
     (let items = sessionItems st sessionId;
          newItem = (item (ascii ''user-'' @ String_int now) KindMessage)
                      \<lparr>i_role := Some User, i_text := Some txt\<rparr>
      in appendItem st sessionId items newItem)"
| "sessionReducer now st (AppendAssistantDelta sessionId itemId delta) =
     (let items = sessionItems st sessionId
      in case findIndex (\<lambda>i. i_id i = itemId) items of
           None \<Rightarrow>
             appendItem st sessionId items
               ((item itemId KindMessage)\<lparr>i_role := Some Assistant, i_text := Some delta\<rparr>)
         | Some idx \<Rightarrow>
             (let existingItem = items ! idx
              in if i_kind existingItem \<noteq> KindMessage then st
                 else setItems st sessionId
                        (items[idx := existingItem
                           \<lparr>i_text := Some (orUndefined (i_text existingItem) @ delta)\<rparr>])))"
| "sessionReducer now st (AppendReasoningDelta sessionId itemId delta) =
     (let items = sessionItems st sessionId
      in case findIndex (\<lambda>i. i_id i = itemId) items of
           None \<Rightarrow>
             appendItem st sessionId items
               ((item itemId KindReasoning)
                  \<lparr>i_summary := Some (ascii ''Thinking''), i_content := Some delta\<rparr>)
         | Some idx \<Rightarrow>
             (let existingItem = items ! idx
              in if i_kind existingItem \<noteq> KindReasoning then st
                 else setItems st sessionId
                        (items[idx := existingItem
                           \<lparr>i_content := Some (orEmpty (i_content existingItem) @ delta)\<rparr>])))"
| "sessionReducer now st (AppendToolOutput sessionId itemId delta) =
     (let items = sessionItems st sessionId
      in case findIndex (\<lambda>i. i_id i = itemId) items of
           None \<Rightarrow>
             appendItem st sessionId items
               ((item itemId KindTool)
                  \<lparr>i_toolType := Some (ascii ''acpToolCall''), i_title := Some (ascii ''Tool''),
                   i_detail := Some [], i_status := Some (ascii ''in_progress''),
                   i_output := Some delta\<rparr>)
         | Some idx \<Rightarrow>
             (let existingItem = items ! idx
              in if i_kind existingItem \<noteq> KindTool then st
                 else setItems st sessionId
                        (items[idx := existingItem
                           \<lparr>i_output := Some (orEmpty (i_output existingItem) @ delta)\<rparr>])))"
| "sessionReducer now st (SetToolStatus sessionId itemId status) =
     (let items = sessionItems st sessionId
      in case findIndex (\<lambda>i. i_id i = itemId) items of
           None \<Rightarrow>
             appendItem st sessionId items
               ((item itemId KindTool)
                  \<lparr>i_toolType := Some (ascii ''acpToolCall''), i_title := Some (ascii ''Tool''),
                   i_detail := Some [], i_status := Some status\<rparr>)
         | Some idx \<Rightarrow>
             (let existingItem = items ! idx
              in if i_kind existingItem \<noteq> KindTool then st
                 else setItems st sessionId
                        (items[idx := existingItem\<lparr>i_status := Some status\<rparr>])))"
| "sessionReducer now st (AppendToolChanges sessionId itemId changes) =
     (let items = sessionItems st sessionId
      in case findIndex (\<lambda>i. i_id i = itemId) items of
           None \<Rightarrow>
             appendItem st sessionId items
               ((item itemId KindTool)
                  \<lparr>i_toolType := Some (ascii ''acpToolCall''), i_title := Some (ascii ''Tool''),
                   i_detail := Some [], i_status := Some (ascii ''in_progress''),
                   i_changes := Some changes\<rparr>)
         | Some idx \<Rightarrow>
             (let existingItem = items ! idx
              in if i_kind existingItem \<noteq> KindTool then st
                 else (let existingChanges = orEmpty (i_changes existingItem)
                       in setItems st sessionId
                            (items[idx := existingItem
                               \<lparr>i_changes := Some (existingChanges @ changes)\<rparr>]))))"
| "sessionReducer now st (UpsertItem sessionId newItem) =
     (let items = sessionItems st sessionId
      in case findIndex (\<lambda>i. i_id i = i_id newItem) items of
           None \<Rightarrow> appendItem st sessionId items newItem
         | Some idx \<Rightarrow> setItems st sessionId (items[idx := spread (items ! idx) newItem]))"
| "sessionReducer now st (SetSessionItems sessionId items) =
     setItems st sessionId (slice_from (- MAX_ITEMS_PER_SESSION) items)"
| "sessionReducer now st (SetSessions workspaceId sessions) =
     st\<lparr>sessionsByWorkspace := (sessionsByWorkspace st)(workspaceId \<mapsto> sessions)\<rparr>"
| "sessionReducer now st (SetSessionListLoading workspaceId isLoading) =
     st\<lparr>sessionListLoadingByWorkspace :=
          (sessionListLoadingByWorkspace st)(workspaceId \<mapsto> isLoading)\<rparr>"
| "sessionReducer now st (SetSessionPlan sessionId plan) =
     st\<lparr>planBySession := (planBySession st)(sessionId \<mapsto> plan)\<rparr>"
| "sessionReducer now st (SetSessionTitle workspaceId sessionId title) =
     (let sessions = workspaceSessions st workspaceId
      in case findIndex (\<lambda>s. s_id s = sessionId) sessions of
           None \<Rightarrow> st
         | Some idx \<Rightarrow>
             st\<lparr>sessionsByWorkspace := (sessionsByWorkspace st)(workspaceId \<mapsto>
                  sessions[idx := (sessions ! idx)\<lparr>s_title := title\<rparr>])\<rparr>)"

text \<open>Dispatching a sequence of actions, each with the clock reading of its reducer call.\<close>

definition dispatchAll :: "SessionState \<Rightarrow> (int \<times> SessionAction) list \<Rightarrow> SessionState" where
  "dispatchAll st acts = foldl (\<lambda>s (now, a). sessionReducer now s a) st acts"

section \<open>Vocabulary of the properties\<close>

text \<open>
  \<open>withinCap\<close>: every stored item sequence respects the retention cap.
  \<open>target\<close>: the session and the item id an action addresses (\<open>action.itemId\<close>, or
  \<open>action.item.id\<close> for \<open>upsertItem\<close>).
\<close>

definition withinCap :: "SessionState \<Rightarrow> bool" where
  "withinCap st = (\<forall>sessionId items. itemsBySession st sessionId = Some items \<longrightarrow>
                      int (length items) \<le> MAX_ITEMS_PER_SESSION)"

fun target :: "SessionAction \<Rightarrow> (jsstring \<times> jsstring) option" where
  "target (AppendAssistantDelta sessionId itemId delta) = Some (sessionId, itemId)"
| "target (AppendReasoningDelta sessionId itemId delta) = Some (sessionId, itemId)"
| "target (AppendToolOutput sessionId itemId delta) = Some (sessionId, itemId)"
| "target (SetToolStatus sessionId itemId status) = Some (sessionId, itemId)"
| "target (AppendToolChanges sessionId itemId changes) = Some (sessionId, itemId)"
| "target (UpsertItem sessionId newItem) = Some (sessionId, i_id newItem)"
| "target _ = None"

text \<open>
  The summary as the specification words it, for a present baseline and at least one
  item. A clause is \<open><count> <noun>\<close>, the noun in the plural exactly when the count is not 1.
  The plan clause and the file clause qualify when their delta is positive; the tool
  clause when its delta is positive and no files changed (the file delta is zero); the
  message clause when its delta is positive and no other clause qualified.
\<close>

definition clause :: "int \<Rightarrow> string \<Rightarrow> string \<Rightarrow> jsstring" where
  "clause n noun rest =
     String_int n @ ascii noun @ (if n \<noteq> 1 then ascii ''s'' else []) @ ascii rest"

definition summary_spec :: "ActivitySnapshot \<Rightarrow> ActivitySnapshot \<Rightarrow> bool \<Rightarrow> bool \<Rightarrow> jsstring" where
  "summary_spec base cur processing approvalPending =
    (let planDelta = planCompleted cur - planCompleted base;
         fileDelta = diffCount cur - diffCount base;
         toolDelta = toolCallCount cur - toolCallCount base;
         msgDelta = messageCount cur - messageCount base;
         planQualifies = (planDelta > 0);
         fileQualifies = (fileDelta > 0);
         toolQualifies = (toolDelta > 0 \<and> fileDelta = 0);
         msgQualifies = (msgDelta > 0 \<and> \<not> planQualifies \<and> \<not> fileQualifies \<and> \<not> toolQualifies);
         clauses = (if planQualifies then [clause planDelta '' task'' '' done''] else [])
                 @ (if fileQualifies then [clause fileDelta '' file'' '' changed''] else [])
                 @ (if toolQualifies then [clause toolDelta '' action'' []] else [])
                 @ (if msgQualifies then [clause msgDelta '' response'' []] else [])
     in if planDelta = 0 \<and> fileDelta = 0 \<and> toolDelta = 0 \<and> msgDelta = 0
        then (if processing then ascii ''Working'' @ [ellipsis]
              else if approvalPending then ascii ''Waiting for approval''
              else ascii ''No new activity'')
        else if clauses = []
        then (if processing then ascii ''Working'' @ [ellipsis] else ascii ''Caught up'')
        else join (ascii '', '') clauses)"

text \<open>
  \<open>findItem\<close>: the item an id-addressed action works on, \<open>items[items.findIndex(...)]\<close>,
  the first item of the session with that id.
  \<open>toolActionOn\<close>: the action is one of the three tool-call actions, addressed to the
  given session and item id. \<open>outputDeltas\<close> and \<open>changeLists\<close> concatenate what a
  sequence of actions appends, in dispatch order; \<open>lastStatus\<close> is the status of the
  last \<open>setToolStatus\<close> action, if any.
\<close>

definition findItem :: "SessionState \<Rightarrow> jsstring \<Rightarrow> jsstring \<Rightarrow> ConversationItem option" where
  "findItem st sessionId itemId =
     (case findIndex (\<lambda>i. i_id i = itemId) (sessionItems st sessionId) of
        None \<Rightarrow> None
      | Some idx \<Rightarrow> Some (sessionItems st sessionId ! idx))"

fun toolActionOn :: "jsstring \<Rightarrow> jsstring \<Rightarrow> SessionAction \<Rightarrow> bool" where
  "toolActionOn sid iid (AppendToolOutput sessionId itemId delta) = (sessionId = sid \<and> itemId = iid)"
| "toolActionOn sid iid (SetToolStatus sessionId itemId status) = (sessionId = sid \<and> itemId = iid)"
| "toolActionOn sid iid (AppendToolChanges sessionId itemId changes) = (sessionId = sid \<and> itemId = iid)"
| "toolActionOn sid iid _ = False"

fun outputDeltas :: "SessionAction list \<Rightarrow> jsstring" where
  "outputDeltas [] = []"
| "outputDeltas (AppendToolOutput sessionId itemId delta # rest) = delta @ outputDeltas rest"
| "outputDeltas (_ # rest) = outputDeltas rest"

fun changeLists :: "SessionAction list \<Rightarrow> FileChange list" where
  "changeLists [] = []"
| "changeLists (AppendToolChanges sessionId itemId changes # rest) = changes @ changeLists rest"
| "changeLists (_ # rest) = changeLists rest"

fun statusOf :: "SessionAction \<Rightarrow> jsstring option" where
  "statusOf (SetToolStatus sessionId itemId status) = Some status"
| "statusOf _ = None"

fun lastStatus :: "SessionAction list \<Rightarrow> jsstring option" where
  "lastStatus [] = None"
| "lastStatus (a # rest) = orElse (lastStatus rest) (statusOf a)"

text \<open>\<open>idsDistinct\<close>: within every stored item sequence the ids are pairwise distinct.\<close>

definition idsDistinct :: "SessionState \<Rightarrow> bool" where
  "idsDistinct st = (\<forall>sessionId items. itemsBySession st sessionId = Some items \<longrightarrow>
                        distinct (map i_id items))"

section \<open>Loosely typed values\<close>

text \<open>
  Values of type \<open>unknown\<close> (event parameters, tool inputs, parsed JSON): the JSON data
  model plus \<open>undefined\<close>. Numbers are restricted to integers, as everywhere in this
  model. An object is its list of own properties in insertion order, each key once.
  \<open>JSON.stringify\<close> and \<open>JSON.parse\<close> are functions of the platform, not of this
  repository; the functions that call them take them as the parameters \<open>stringify\<close>
  (\<open>None\<close> for the result \<open>undefined\<close>) and \<open>parse\<close> (\<open>None\<close> for a thrown
  \<open>SyntaxError\<close>).
\<close>

datatype JsValue =
    JUndefined
  | JNull
  | JBool bool
  | JNum int
  | JStr jsstring
  | JArr "JsValue list"
  | JObj "(jsstring \<times> JsValue) list"

definition newline :: jsstring where
  "newline = [0x0A]"

section \<open>History items from message parts\<close>

datatype MessagePart =
    PartText jsstring
  | PartReasoning jsstring
  | PartToolUse jsstring jsstring JsValue
  | PartToolResult jsstring jsstring
  | PartPatch jsstring "jsstring list"
  | PartFile jsstring jsstring

text \<open>
  \<open>messagePartsToItems\<close>: the loop over \<open>parts\<close> pushes at most one item per part; the
  \<open>switch\<close> has no case for a \<open>file\<close> part. \<open>partItems\<close> is the body of the loop.
\<close>

fun partItems ::
  "(JsValue \<Rightarrow> jsstring option) \<Rightarrow> jsstring \<Rightarrow> Role \<Rightarrow> MessagePart \<Rightarrow> ConversationItem list" where
  "partItems stringify messageId r (PartText t) =
     [(item (messageId @ ascii ''-text'') KindMessage)\<lparr>i_role := Some r, i_text := Some t\<rparr>]"
| "partItems stringify messageId r (PartReasoning t) =
     [(item (messageId @ ascii ''-reasoning'') KindReasoning)
        \<lparr>i_summary := Some (take 100 t), i_content := Some t\<rparr>]"
| "partItems stringify messageId r (PartToolUse partId name input) =
     [(item partId KindTool)
        \<lparr>i_toolType := Some name, i_title := Some name, i_detail := stringify input,
         i_status := Some (ascii ''running'')\<rparr>]"
| "partItems stringify messageId r (PartToolResult tool_use_id c) =
     [(item tool_use_id KindTool)
        \<lparr>i_toolType := Some (ascii ''result''), i_title := Some (ascii ''Tool Result''),
         i_detail := Some [], i_output := Some c, i_status := Some (ascii ''completed'')\<rparr>]"
| "partItems stringify messageId r (PartPatch hash files) =
     [(item (messageId @ ascii ''-patch'') KindDiff)
        \<lparr>i_title := Some (ascii ''Changes to '' @ String_int (int (length files)) @ ascii '' file(s)''),
         i_diff := Some (join newline files), i_status := Some (ascii ''completed'')\<rparr>]"
| "partItems stringify messageId r (PartFile url mime) = []"

definition messagePartsToItems ::
  "(JsValue \<Rightarrow> jsstring option) \<Rightarrow> jsstring \<Rightarrow> Role \<Rightarrow> MessagePart list \<Rightarrow> ConversationItem list" where
  "messagePartsToItems stringify messageId r parts =
     foldl (\<lambda>items part. items @ partItems stringify messageId r part) [] parts"

section \<open>Reading loosely typed values\<close>

text \<open>
  \<open>field v name\<close> is \<open>v.name\<close> for a value that is neither \<open>undefined\<close> nor \<open>null\<close>: an own
  property of an object, \<open>undefined\<close> otherwise (the names the program reads are no array
  index, no \<open>length\<close> and, where a value can be an array or a primitive, no inherited
  method). \<open>getProp\<close> is the read as JavaScript performs it: on \<open>undefined\<close> and \<open>null\<close> it
  throws a \<open>TypeError\<close>. \<open>truthy\<close> is the conversion to boolean, \<open>isObject v\<close> is
  \<open>typeof v === "object"\<close>, \<open>nullish v d\<close> is \<open>v ?? d\<close> and \<open>String_js\<close> is \<open>String(v)\<close>
  (objects are plain data without a \<open>toString\<close> of their own).
\<close>

datatype fault = TypeError | BackendError

definition lookupProp :: "(jsstring \<times> JsValue) list \<Rightarrow> jsstring \<Rightarrow> JsValue" where
  "lookupProp ps name = (case map_of ps name of None \<Rightarrow> JUndefined | Some v \<Rightarrow> v)"

definition field :: "JsValue \<Rightarrow> jsstring \<Rightarrow> JsValue" where
  "field v name = (case v of JObj ps \<Rightarrow> lookupProp ps name | _ \<Rightarrow> JUndefined)"

definition getProp :: "JsValue \<Rightarrow> jsstring \<Rightarrow> fault + JsValue" where
  "getProp v name = (if v = JUndefined \<or> v = JNull then Inl TypeError else Inr (field v name))"

fun truthy :: "JsValue \<Rightarrow> bool" where
  "truthy JUndefined = False"
| "truthy JNull = False"
| "truthy (JBool b) = b"
| "truthy (JNum n) = (n \<noteq> 0)"
| "truthy (JStr s) = (s \<noteq> [])"
| "truthy (JArr xs) = True"
| "truthy (JObj ps) = True"

fun isObject :: "JsValue \<Rightarrow> bool" where
  "isObject JNull = True"
| "isObject (JArr xs) = True"
| "isObject (JObj ps) = True"
| "isObject _ = False"

fun isArray :: "JsValue \<Rightarrow> bool" where
  "isArray (JArr xs) = True"
| "isArray _ = False"

definition nullish :: "JsValue \<Rightarrow> JsValue \<Rightarrow> JsValue" where
  "nullish v d = (if v = JUndefined \<or> v = JNull then d else v)"

fun String_js :: "JsValue \<Rightarrow> jsstring" where
  "String_js JUndefined = ascii ''undefined''"
| "String_js JNull = ascii ''null''"
| "String_js (JBool b) = (if b then ascii ''true'' else ascii ''false'')"
| "String_js (JNum n) = String_int n"
| "String_js (JStr s) = s"
| "String_js (JArr xs) =
     join (ascii '','') (map (\<lambda>x. if x = JUndefined \<or> x = JNull then [] else String_js x) xs)"
| "String_js (JObj ps) = ascii ''[object Object]''"

text \<open>\<open>[a, b].filter(Boolean)\<close> on strings that may be \<open>undefined\<close>.\<close>

definition filterBoolean :: "jsstring option list \<Rightarrow> jsstring list" where
  "filterBoolean vs = List.map_filter (\<lambda>v. case v of None \<Rightarrow> None
                                              | Some s \<Rightarrow> if s = [] then None else Some s) vs"

section \<open>The session controller\<close>

text \<open>
  The hook \<open>useSessions\<close> owns the reducer state and two maps of in-flight item ids
  (\<open>activeAssistantMessageIdRef\<close>, \<open>activeReasoningItemIdRef\<close>). \<open>dispatch\<close> applies the
  reducer, with the clock reading of that reducer call.
\<close>

record Controller =
  reducerState :: SessionState
  activeAssistantMessageIdRef :: "jsstring \<rightharpoonup> jsstring"
  activeReasoningItemIdRef :: "jsstring \<rightharpoonup> jsstring"

definition dispatch :: "int \<Rightarrow> SessionAction \<Rightarrow> Controller \<Rightarrow> Controller" where
  "dispatch now a ctrl = ctrl\<lparr>reducerState := sessionReducer now (reducerState ctrl) a\<rparr>"

subsection \<open>The event listener\<close>

text \<open>
  An envelope is \<open>{ workspaceId, method, params? }\<close>; a missing \<open>params\<close> is \<open>JUndefined\<close>.
  The listener ends in one of three ways: it throws (\<open>Raised\<close>), it completes with a new
  controller state (\<open>Done\<close>), or it dispatches an action one of whose fields does not have
  the type \<open>SessionAction\<close> declares, because \<open>params as T\<close> is not checked at run time
  (\<open>Untyped\<close>: no fault has been raised, and the typed reducer of this model does not
  follow the run further).
\<close>

record OpenCodeEvent =
  e_workspaceId :: jsstring
  e_method :: jsstring
  e_params :: JsValue

datatype 'a outcome = Raised fault | Untyped | Done 'a

definition withProp :: "JsValue \<Rightarrow> jsstring \<Rightarrow> (JsValue \<Rightarrow> 'a outcome) \<Rightarrow> 'a outcome" where
  "withProp v name k = (case getProp v name of Inl e \<Rightarrow> Raised e | Inr x \<Rightarrow> k x)"

text \<open>The item a \<open>tool_call\<close> update upserts.\<close>

definition toolCallItem ::
  "(JsValue \<Rightarrow> jsstring option) \<Rightarrow> jsstring \<Rightarrow> JsValue \<Rightarrow> ConversationItem" where
  "toolCallItem stringify itemId updateRecord =
    (let title = String_js (nullish (field updateRecord (ascii ''title'')) (JStr (ascii ''Tool'')));
         kind = String_js (nullish (field updateRecord (ascii ''kind'')) (JStr []));
         status = String_js (nullish (field updateRecord (ascii ''status'')) (JStr (ascii ''pending'')));
         rawInput = field updateRecord (ascii ''rawInput'');
         rawInputText = (if truthy rawInput then stringify rawInput else Some []);
         detailRaw = join newline (filterBoolean [Some kind, rawInputText]);
         detail = (if length detailRaw > 4000 then take 4000 detailRaw @ [ellipsis] else detailRaw)
     in (item itemId KindTool)
          \<lparr>i_toolType := Some (ascii ''acpToolCall''),
           i_title := Some (if kind \<noteq> [] then kind @ ascii '': '' @ title else title),
           i_detail := Some detail,
           i_status := Some status\<rparr>)"

text \<open>One iteration of the loop over the \<open>content\<close> array of a tool-call update.\<close>

definition toolContentEntry :: "int \<Rightarrow> jsstring \<Rightarrow> jsstring \<Rightarrow> Controller \<Rightarrow> JsValue \<Rightarrow> Controller" where
  "toolContentEntry now targetSessionId itemId ctrl entry =
    (if \<not> truthy entry \<or> \<not> isObject entry then ctrl
     else
       (let contentType = String_js (nullish (field entry (ascii ''type'')) (JStr []))
        in if contentType = ascii ''content'' then
             (let inner = field entry (ascii ''content'')
              in if \<not> truthy inner \<or> \<not> isObject inner then ctrl
                 else if field inner (ascii ''type'') \<noteq> JStr (ascii ''text'') then ctrl
                 else (let txt = String_js (nullish (field inner (ascii ''text'')) (JStr []))
                       in if txt = [] then ctrl
                          else dispatch now (AppendToolOutput targetSessionId itemId txt) ctrl))
           else if contentType = ascii ''diff'' then
             (let path = String_js (nullish (field entry (ascii ''path'')) (JStr []));
                  oldText = String_js (nullish (field entry (ascii ''oldText'')) (JStr []));
                  newText = String_js (nullish (field entry (ascii ''newText'')) (JStr []))
              in if path = [] then ctrl
                 else
                   (let diffBody = ascii ''--- '' @ path @ newline @ ascii ''+++ '' @ path @ newline
                                   @ ascii ''@@'' @ newline @ ascii ''-'' @ oldText @ newline
                                   @ ascii ''+'' @ newText;
                        diffText = (if length diffBody > 10000
                                    then take 10000 diffBody @ [ellipsis] else diffBody)
                    in dispatch now
                         (AppendToolChanges targetSessionId itemId
                            [\<lparr>c_path = path, c_kind = Some (ascii ''MOD''), c_diff = Some diffText\<rparr>])
                         ctrl))
           else if contentType = ascii ''terminal'' then
             (let terminalId = String_js (nullish (field entry (ascii ''terminalId'')) (JStr []))
              in if terminalId \<noteq> []
                 then dispatch now
                        (AppendToolOutput targetSessionId itemId
                           (newline @ ascii ''[terminal:'' @ terminalId @ ascii '']'' @ newline))
                        ctrl
                 else ctrl)
           else ctrl))"

text \<open>The branch for \<open>tool_call\<close> and \<open>tool_call_update\<close>.\<close>

definition toolCallUpdate ::
  "(JsValue \<Rightarrow> jsstring option) \<Rightarrow> int \<Rightarrow> jsstring \<Rightarrow> jsstring \<Rightarrow> JsValue \<Rightarrow> Controller \<Rightarrow> Controller" where
  "toolCallUpdate stringify now targetSessionId updateType updateRecord ctrl =
    (let toolCallId = String_js (nullish (field updateRecord (ascii ''toolCallId'')) (JStr []))
     in if toolCallId = [] then ctrl
        else
          (let itemId = ascii ''tool-'' @ targetSessionId @ ascii ''-'' @ toolCallId;
               ctrl1 = (if updateType = ascii ''tool_call''
                        then dispatch now
                               (UpsertItem targetSessionId (toolCallItem stringify itemId updateRecord))
                               ctrl
                        else ctrl);
               status = field updateRecord (ascii ''status'');
               ctrl2 = (case status of
                          JStr s \<Rightarrow> if s \<noteq> []
                                    then dispatch now (SetToolStatus targetSessionId itemId s) ctrl1
                                    else ctrl1
                        | _ \<Rightarrow> ctrl1);
               content = field updateRecord (ascii ''content'')
           in case content of
                JArr entries \<Rightarrow> foldl (toolContentEntry now targetSessionId itemId) ctrl2 entries
              | _ \<Rightarrow> ctrl2))"

text \<open>The \<open>plan\<close> branch: \<open>entries.map(...).filter(Boolean)\<close>.\<close>

definition planStep :: "JsValue \<Rightarrow> TurnPlanStep option" where
  "planStep entry =
    (if \<not> truthy entry \<or> \<not> isObject entry then None
     else
       (let stepContent = String_js (nullish (field entry (ascii ''content'')) (JStr []));
            statusRaw = String_js (nullish (field entry (ascii ''status'')) (JStr (ascii ''pending'')));
            stepStatus = (if statusRaw = ascii ''in_progress'' then StepInProgress
                          else if statusRaw = ascii ''completed'' then StepCompleted
                          else StepPending)
        in if stepContent \<noteq> [] then Some \<lparr>step = stepContent, step_status = stepStatus\<rparr>
           else None))"

text \<open>
  The \<open>session/update\<close> case. \<open>now\<close> is the reading of \<open>Date.now()\<close> and \<open>rnd\<close> the value
  of \<open>Math.random().toString(36).slice(2, 8)\<close>, both read at most once per envelope.
\<close>

definition sessionUpdate ::
  "(JsValue \<Rightarrow> jsstring option) \<Rightarrow> int \<Rightarrow> jsstring \<Rightarrow> JsValue \<Rightarrow> Controller \<Rightarrow> Controller outcome" where
  "sessionUpdate stringify now rnd params ctrl =
    withProp params (ascii ''sessionId'') (\<lambda>sessionIdValue.
      let targetSessionId = String_js (nullish sessionIdValue (JStr []))
      in if targetSessionId = [] then Done ctrl
         else withProp params (ascii ''update'') (\<lambda>update.
           if \<not> truthy update \<or> \<not> isObject update then Done ctrl
           else
             (let updateRecord = update;
                  updateType = String_js (nullish (field updateRecord (ascii ''sessionUpdate'')) (JStr []))
              in if updateType = ascii ''agent_message_chunk'' then
                   (let content = field updateRecord (ascii ''content'')
                    in if \<not> truthy content \<or> \<not> isObject content then Done ctrl
                       else
                         (let delta = String_js (nullish (field content (ascii ''text'')) (JStr []))
                          in if delta = [] then Done ctrl
                             else
                               (let itemId = (case activeAssistantMessageIdRef ctrl targetSessionId of
                                                Some i \<Rightarrow> i
                                              | None \<Rightarrow> ascii ''assistant-'' @ targetSessionId)
                                in Done (dispatch now
                                           (AppendAssistantDelta targetSessionId itemId delta) ctrl))))
                 else if updateType = ascii ''tool_call'' \<or> updateType = ascii ''tool_call_update'' then
                   Done (toolCallUpdate stringify now targetSessionId updateType updateRecord ctrl)
                 else if updateType = ascii ''plan'' then
                   (case field updateRecord (ascii ''entries'') of
                      JArr entries \<Rightarrow>
                        Done (dispatch now
                                (SetSessionPlan targetSessionId
                                   (Some \<lparr>turnId = targetSessionId, explanation = None,
                                          steps = List.map_filter planStep entries\<rparr>))
                                ctrl)
                    | _ \<Rightarrow> Done ctrl)
                 else if updateType = ascii ''agent_thought_chunk'' then
                   (let content = field updateRecord (ascii ''content'')
                    in if \<not> truthy content \<or> \<not> isObject content then Done ctrl
                       else if field content (ascii ''type'') \<noteq> JStr (ascii ''text'') then Done ctrl
                       else
                         (let delta = String_js (nullish (field content (ascii ''text'')) (JStr []))
                          in if delta = [] then Done ctrl
                             else
                               (let stored = activeReasoningItemIdRef ctrl targetSessionId;
                                    minted = ascii ''reasoning-'' @ String_int now @ ascii ''-'' @ rnd;
                                    itemId = (case stored of
                                                Some i \<Rightarrow> if i \<noteq> [] then i else minted
                                              | None \<Rightarrow> minted);
                                    ctrl1 = ctrl\<lparr>activeReasoningItemIdRef :=
                                              (activeReasoningItemIdRef ctrl)(targetSessionId \<mapsto> itemId)\<rparr>
                                in Done (dispatch now
                                           (AppendReasoningDelta targetSessionId itemId delta) ctrl1))))
                 else Done ctrl)))"

text \<open>
  The listener: envelopes of another workspace are dropped, then the \<open>switch\<close> over the
  method. The cases other than \<open>session/update\<close> pass properties of \<open>params\<close> to the
  reducer as they are.
\<close>

definition onEvent ::
  "(JsValue \<Rightarrow> jsstring option) \<Rightarrow> jsstring \<Rightarrow> int \<Rightarrow> jsstring \<Rightarrow> OpenCodeEvent \<Rightarrow> Controller \<Rightarrow> Controller outcome" where
  "onEvent stringify workspaceId now rnd event ctrl =
    (let params = e_params event
     in if e_workspaceId event \<noteq> workspaceId then Done ctrl
        else if e_method event = ascii ''session/created'' then
          withProp params (ascii ''id'') (\<lambda>sessionId.
            withProp params (ascii ''title'') (\<lambda>t.
              case (sessionId, if truthy t then t else JStr (ascii ''New Session'')) of
                (JStr sid, JStr title) \<Rightarrow> Done (dispatch now (EnsureSession workspaceId sid (Some title)) ctrl)
              | _ \<Rightarrow> Untyped))
        else if e_method event = ascii ''session/updated'' then
          withProp params (ascii ''id'') (\<lambda>sessionId.
            withProp params (ascii ''title'') (\<lambda>t.
              case (sessionId, if truthy t then t else JStr (ascii ''Untitled Session'')) of
                (JStr sid, JStr title) \<Rightarrow> Done (dispatch now (SetSessionTitle workspaceId sid title) ctrl)
              | _ \<Rightarrow> Untyped))
        else if e_method event = ascii ''session/deleted'' then
          withProp params (ascii ''sessionId'') (\<lambda>sessionId.
            case sessionId of
              JStr sid \<Rightarrow> Done (dispatch now (RemoveSession workspaceId sid) ctrl)
            | _ \<Rightarrow> Untyped)
        else if e_method event = ascii ''session/update'' then
          sessionUpdate stringify now rnd params ctrl
        else if e_method event = ascii ''content/updated'' then
          withProp params (ascii ''text'') (\<lambda>t.
            if truthy t then
              withProp params (ascii ''sessionId'') (\<lambda>sessionId.
                withProp params (ascii ''messageId'') (\<lambda>messageId.
                  case (sessionId,
                        if truthy messageId then messageId
                        else JStr (ascii ''assistant-'' @ String_int now),
                        t) of
                    (JStr sid, JStr itemId, JStr delta) \<Rightarrow>
                      Done (dispatch now (AppendAssistantDelta sid itemId delta) ctrl)
                  | _ \<Rightarrow> Untyped))
            else Done ctrl)
        else if e_method event = ascii ''turn/completed'' then
          withProp params (ascii ''sessionId'') (\<lambda>sessionId.
            case sessionId of
              JStr sid \<Rightarrow>
                Done (dispatch now (MarkProcessing sid False)
                        (ctrl\<lparr>activeAssistantMessageIdRef := (activeAssistantMessageIdRef ctrl)(sid := None),
                              activeReasoningItemIdRef := (activeReasoningItemIdRef ctrl)(sid := None)\<rparr>))
            | _ \<Rightarrow> Untyped)
        else Done ctrl)"

subsection \<open>Sending a message\<close>

text \<open>
  \<open>sendMessage\<close>. \<open>workspaceId\<close> is \<open>activeWorkspace?.id || null\<close> and \<open>activeSessionId\<close> the
  active session of that workspace in the current state. The awaited call
  \<open>sendOpenCodeMessage\<close> is the external operation; its result is the argument
  \<open>sendResult\<close> (\<open>Inl\<close> a rejection). The function returns \<open>Inl\<close> when an exception
  escapes to its caller. \<open>nowReducer\<close> is the clock reading of the reducer calls, \<open>now\<close>
  and \<open>rnd\<close> are the readings of \<open>Date.now()\<close> and of the random suffix in \<open>sendMessage\<close>.
\<close>

record SendOptions =
  o_modelId :: "jsstring option"
  o_providerId :: "jsstring option"
  o_sessionId :: "jsstring option"

definition activeSessionId :: "jsstring option \<Rightarrow> SessionState \<Rightarrow> jsstring option" where
  "activeSessionId workspaceId st =
     (case workspaceId of
        None \<Rightarrow> None
      | Some w \<Rightarrow> (case activeSessionIdByWorkspace st w of Some (Some s) \<Rightarrow> Some s | _ \<Rightarrow> None))"

definition nonEmpty :: "jsstring option \<Rightarrow> jsstring option" where
  "nonEmpty v = (case v of Some s \<Rightarrow> if s = [] then None else Some s | None \<Rightarrow> None)"

text \<open>\<open>options?.sessionId || activeSessionId\<close>.\<close>

definition targetSessionIdOf :: "SendOptions option \<Rightarrow> jsstring option \<Rightarrow> SessionState \<Rightarrow> jsstring option" where
  "targetSessionIdOf options workspaceId st =
     orElse (nonEmpty (case options of None \<Rightarrow> None | Some opts \<Rightarrow> o_sessionId opts))
            (activeSessionId workspaceId st)"

definition sendMessage ::
  "jsstring option \<Rightarrow> jsstring \<Rightarrow> SendOptions option \<Rightarrow> int \<Rightarrow> int \<Rightarrow> jsstring \<Rightarrow> fault + unit \<Rightarrow>
   Controller \<Rightarrow> fault + Controller" where
  "sendMessage workspaceId txt options nowReducer now rnd sendResult ctrl =
    (let targetSessionId = targetSessionIdOf options workspaceId (reducerState ctrl)
     in case (nonEmpty workspaceId, nonEmpty targetSessionId) of
          (Some w, Some sid) \<Rightarrow>
            (let ctrl1 = dispatch nowReducer (AddUserMessage w sid txt) ctrl;
                 ctrl2 = dispatch nowReducer (MarkProcessing sid True) ctrl1;
                 ctrl3 = dispatch nowReducer (SetSessionPlan sid None) ctrl2;
                 ctrl4 = ctrl3\<lparr>activeReasoningItemIdRef := (activeReasoningItemIdRef ctrl3)(sid := None)\<rparr>;
                 assistantItemId = ascii ''assistant-'' @ String_int now @ ascii ''-'' @ rnd;
                 ctrl5 = ctrl4\<lparr>activeAssistantMessageIdRef :=
                           (activeAssistantMessageIdRef ctrl4)(sid \<mapsto> assistantItemId)\<rparr>;
                 ctrl6 = dispatch nowReducer
                           (UpsertItem sid
                              ((item assistantItemId KindMessage)
                                 \<lparr>i_role := Some Assistant, i_text := Some []\<rparr>))
                           ctrl5
             in case sendResult of
                  Inr u \<Rightarrow> Inr ctrl6
                | Inl error \<Rightarrow> Inr (dispatch nowReducer (MarkProcessing sid False) ctrl6))
        | _ \<Rightarrow> Inr ctrl)"

text \<open>The controller as the hook creates it: \<open>useReducer(sessionReducer, initialState)\<close> and two empty maps.\<close>

definition initialController :: Controller where
  "initialController = \<lparr>reducerState = initialState, activeAssistantMessageIdRef = Map.empty,
                          activeReasoningItemIdRef = Map.empty\<rparr>"

text \<open>
  \<open>truncated n s\<close>: the text \<open>s\<close>, cut after \<open>n\<close> code units and closed with an ellipsis
  when it is longer than \<open>n\<close>.
\<close>

definition truncated :: "nat \<Rightarrow> jsstring \<Rightarrow> jsstring" where
  "truncated n s = (if length s > n then take n s @ [ellipsis] else s)"

text \<open>
  \<open>toolItemShows\<close>: the session holds, under the given id, a tool item with the given
  title, status and detail.
\<close>

definition toolItemShows :: "Controller \<Rightarrow> jsstring \<Rightarrow> jsstring \<Rightarrow> jsstring \<Rightarrow> jsstring \<Rightarrow> jsstring \<Rightarrow> bool" where
  "toolItemShows ctrl sid iid t s d =
     (\<exists>x. findItem (reducerState ctrl) sid iid = Some x \<and> i_kind x = KindTool \<and>
          i_title x = Some t \<and> i_status x = Some s \<and> i_detail x = Some d)"

section \<open>The activity baseline\<close>

datatype HandoffKind = Thread | Session

definition BASELINE_VERSION :: jsstring where
  "BASELINE_VERSION = ascii ''v2''"

definition kindText :: "HandoffKind \<Rightarrow> jsstring" where
  "kindText k = (case k of Thread \<Rightarrow> ascii ''thread'' | Session \<Rightarrow> ascii ''session'')"

definition baselineKey :: "HandoffKind \<Rightarrow> jsstring \<Rightarrow> jsstring \<Rightarrow> jsstring" where
  "baselineKey k workspaceId i =
     ascii ''handoff:baseline:'' @ BASELINE_VERSION @ ascii '':'' @ kindText k @ ascii '':''
     @ workspaceId @ ascii '':'' @ i"

text \<open>
  \<open>snapshotActivity\<close>: the loop over the items counts into the three variables
  \<open>messageCount\<close>, \<open>toolCallCount\<close> and \<open>diffCount\<close> (here \<open>mc\<close>, \<open>tc\<close>, \<open>dc\<close>).
\<close>

definition countItem :: "int \<times> int \<times> int \<Rightarrow> ConversationItem \<Rightarrow> int \<times> int \<times> int" where
  "countItem counts it =
     (case counts of (mc, tc, dc) \<Rightarrow>
        if i_kind it = KindMessage \<and> i_role it = Some Assistant then (mc + 1, tc, dc)
        else if i_kind it = KindTool then (mc, tc + 1, dc)
        else if i_kind it = KindDiff then (mc, tc, dc + 1)
        else (mc, tc, dc))"

definition snapshotActivity :: "ConversationItem list \<Rightarrow> TurnPlan option \<Rightarrow> ActivitySnapshot" where
  "snapshotActivity items plan =
     (case foldl countItem (0, 0, 0) items of (mc, tc, dc) \<Rightarrow>
        \<lparr>messageCount = mc, toolCallCount = tc, diffCount = dc,
         planCompleted = (case plan of
                            None \<Rightarrow> 0
                          | Some p \<Rightarrow> int (length (filter (\<lambda>s. step_status s = StepCompleted) (steps p))))\<rparr>)"

text \<open>
  The baseline held in the hook's state is whatever \<open>JSON.parse\<close> returned, cast to
  \<open>HandoffBaseline\<close>, or the object the hook builds itself; it is modelled as a value,
  \<open>JNull\<close> for \<open>null\<close>. \<open>baselineValueOf\<close> is the object literal
  \<open>{ openedAt: now, activity: snapshotActivity(...) }\<close>.
\<close>

definition baselineValueOf :: "int \<Rightarrow> ActivitySnapshot \<Rightarrow> JsValue" where
  "baselineValueOf now snap =
     JObj [(ascii ''openedAt'', JNum now),
           (ascii ''activity'',
            JObj [(ascii ''messageCount'', JNum (messageCount snap)),
                  (ascii ''toolCallCount'', JNum (toolCallCount snap)),
                  (ascii ''diffCount'', JNum (diffCount snap)),
                  (ascii ''planCompleted'', JNum (planCompleted snap))])]"

text \<open>
  \<open>localStorage\<close>: the stored entries, and the two ways its operations fail. An access
  is refused with a \<open>SecurityError\<close> when the storage is denied to the page, and a write
  is refused with a \<open>QuotaExceededError\<close> when the storage is full. Both are exceptions
  thrown by \<open>getItem\<close> and \<open>setItem\<close>.
\<close>

datatype DOMException = SecurityError | QuotaExceededError

record Storage =
  ls_entries :: "jsstring \<rightharpoonup> jsstring"
  ls_accessDenied :: bool
  ls_full :: bool

definition getItem :: "Storage \<Rightarrow> jsstring \<Rightarrow> DOMException + jsstring option" where
  "getItem ls key = (if ls_accessDenied ls then Inl SecurityError else Inr (ls_entries ls key))"

definition setItem :: "Storage \<Rightarrow> jsstring \<Rightarrow> jsstring \<Rightarrow> DOMException + Storage" where
  "setItem ls key v =
     (if ls_accessDenied ls then Inl SecurityError
      else if ls_full ls then Inl QuotaExceededError
      else Inr (ls\<lparr>ls_entries := (ls_entries ls)(key \<mapsto> v)\<rparr>))"

text \<open>
  The effect of \<open>useHandoffTldr\<close> that loads the baseline when \<open>kind\<close>, \<open>workspaceId\<close> or
  \<open>id\<close> change. The result is the new storage and the new baseline state, or \<open>Inl\<close> when
  an exception leaves the effect. Only \<open>JSON.parse\<close> stands inside the \<open>try\<close>: its
  \<open>SyntaxError\<close> is caught by the empty \<open>catch\<close>, while \<open>localStorage.getItem\<close> before it
  and \<open>localStorage.setItem\<close> after it are called unguarded, so their exceptions leave
  the effect (and \<open>setBaseline\<close> after a failed \<open>setItem\<close> is not reached).
\<close>

definition loadBaseline ::
  "(jsstring \<Rightarrow> JsValue option) \<Rightarrow> (JsValue \<Rightarrow> jsstring option) \<Rightarrow> HandoffKind \<Rightarrow>
   jsstring option \<Rightarrow> jsstring option \<Rightarrow> int \<Rightarrow> ConversationItem list \<Rightarrow> TurnPlan option \<Rightarrow>
   Storage \<Rightarrow> DOMException + (Storage \<times> JsValue)" where
  "loadBaseline parse stringify k workspaceId i now latestItems latestPlan localStorage =
    (case (nonEmpty workspaceId, nonEmpty i) of
       (Some w, Some sid) \<Rightarrow>
         (let key = baselineKey k w sid
          in case getItem localStorage key of
               Inl e \<Rightarrow> Inl e
             | Inr stored \<Rightarrow>
                 (let parsed = (case nonEmpty stored of None \<Rightarrow> None | Some s \<Rightarrow> parse s)
                  in case parsed of
                       Some v \<Rightarrow> Inr (localStorage, v)
                     | None \<Rightarrow>
                         (let baselineValue =
                                baselineValueOf now (snapshotActivity latestItems latestPlan)
                          in case setItem localStorage key (orUndefined (stringify baselineValue)) of
                               Inl e \<Rightarrow> Inl e
                             | Inr stored' \<Rightarrow> Inr (stored', baselineValue))))
     | _ \<Rightarrow> Inr (localStorage, JNull))"

text \<open>
  A well-formed baseline in the words of the specification: an object with an \<open>openedAt\<close>
  timestamp and the four activity counters. This is also what the type \<open>HandoffBaseline\<close>
  declares; \<open>typedBaseline\<close> reads such a value as the record.
\<close>

definition isNumber :: "JsValue \<Rightarrow> bool" where
  "isNumber v = (case v of JNum n \<Rightarrow> True | _ \<Rightarrow> False)"

definition wellFormedBaseline :: "JsValue \<Rightarrow> bool" where
  "wellFormedBaseline v =
     (isNumber (field v (ascii ''openedAt'')) \<and>
      isNumber (field (field v (ascii ''activity'')) (ascii ''messageCount'')) \<and>
      isNumber (field (field v (ascii ''activity'')) (ascii ''toolCallCount'')) \<and>
      isNumber (field (field v (ascii ''activity'')) (ascii ''diffCount'')) \<and>
      isNumber (field (field v (ascii ''activity'')) (ascii ''planCompleted'')))"

definition numberOf :: "JsValue \<Rightarrow> int" where
  "numberOf v = (case v of JNum n \<Rightarrow> n | _ \<Rightarrow> 0)"

definition typedBaseline :: "JsValue \<Rightarrow> HandoffBaseline" where
  "typedBaseline v =
     \<lparr>openedAt = numberOf (field v (ascii ''openedAt'')),
      activity =
        \<lparr>messageCount = numberOf (field (field v (ascii ''activity'')) (ascii ''messageCount'')),
         toolCallCount = numberOf (field (field v (ascii ''activity'')) (ascii ''toolCallCount'')),
         diffCount = numberOf (field (field v (ascii ''activity'')) (ascii ''diffCount'')),
         planCompleted = numberOf (field (field v (ascii ''activity'')) (ascii ''planCompleted''))\<rparr>\<rparr>"

text \<open>
  \<open>buildSummary\<close> as it runs on the baseline state of the hook, which holds whatever the
  effect adopted. After the two guards (\<open>!hasItems\<close>, \<open>!baseline\<close>) the first statement
  reads \<open>baseline.activity.messageCount\<close>: when \<open>baseline.activity\<close> is \<open>undefined\<close> or
  \<open>null\<close> the read throws a \<open>TypeError\<close>. On a value of the declared type the call is
  \<open>buildSummary\<close> on the record; on any other value no exception is thrown and the
  arithmetic runs on values that are not numbers, which this typed model does not follow
  (\<open>Untyped\<close>).
\<close>

definition buildSummaryOn ::
  "JsValue \<Rightarrow> ActivitySnapshot \<Rightarrow> bool \<Rightarrow> bool \<Rightarrow> bool \<Rightarrow> jsstring option outcome" where
  "buildSummaryOn baseline current processing approvalPending hasItems =
    (if \<not> hasItems then Done None
     else if \<not> truthy baseline then Done (Some (buildCurrentSummary current))
     else withProp (field baseline (ascii ''activity'')) (ascii ''messageCount'') (\<lambda>count.
            if wellFormedBaseline baseline
            then Done (buildSummary (Some (typedBaseline baseline)) current
                         processing approvalPending hasItems)
            else Untyped))"

text \<open>
  The summary of the memoised \<open>tldr\<close>, for a workspace and an id:
  \<open>hasItems = items.length > 0\<close>, \<open>current = snapshotActivity(items, plan)\<close>, then
  \<open>buildSummary\<close> on the baseline state.
\<close>

definition tldrSummary ::
  "JsValue \<Rightarrow> ConversationItem list \<Rightarrow> TurnPlan option \<Rightarrow> bool \<Rightarrow> bool \<Rightarrow> jsstring option outcome" where
  "tldrSummary baseline items plan processing approvalPending =
     buildSummaryOn baseline (snapshotActivity items plan) processing approvalPending
       (length items > 0)"

section \<open>Strings: facts\<close>

text \<open>The embedding of literals is injective: distinct literals are distinct strings.\<close>

lemma ascii_Nil [simp]: "ascii [] = []"
  by (simp add: ascii_def)

lemma ascii_is_Nil [simp]: "ascii s = [] \<longleftrightarrow> s = []"
  by (simp add: ascii_def)

lemma code_unit_inj:
  "(word_of_nat (of_char a) :: 16 word) = word_of_nat (of_char b) \<longleftrightarrow> a = b"
proof
  assume "(word_of_nat (of_char a) :: 16 word) = word_of_nat (of_char b)"
  then have "unat (word_of_nat (of_char a) :: 16 word) = unat (word_of_nat (of_char b) :: 16 word)"
    by simp
  moreover have lt: "(of_char c :: nat) < 2 ^ 16" for c
  proof -
    have "(of_char c :: nat) < 256" by simp
    also have "(256 :: nat) < 2 ^ 16" by simp
    finally show ?thesis .
  qed
  ultimately have "(of_char a :: nat) = of_char b"
    using lt[of a] lt[of b] by (simp add: unat_of_nat)
  then show "a = b" by simp
qed simp

lemma ascii_eq_iff [simp]: "ascii a = ascii b \<longleftrightarrow> a = b"
  unfolding ascii_def
  by (rule inj_map_eq_map) (simp add: inj_def code_unit_inj)

section \<open>Array helpers: facts\<close>

lemma findIndex_None_iff: "findIndex p xs = None \<longleftrightarrow> (\<forall>x \<in> set xs. \<not> p x)"
  by (induction xs) auto

lemma findIndex_Some_lt: "findIndex p xs = Some i \<Longrightarrow> i < length xs \<and> p (xs ! i)"
  by (induction xs arbitrary: i) (auto split: if_splits)

lemma findIndex_Some_first: "findIndex p xs = Some i \<Longrightarrow> j < i \<Longrightarrow> \<not> p (xs ! j)"
proof (induction xs arbitrary: i j)
  case Nil
  then show ?case by simp
next
  case (Cons x xs)
  then show ?case by (cases j) (auto split: if_splits)
qed

lemma length_slice_from_neg: "start < 0 \<Longrightarrow> int (length (slice_from start xs)) \<le> - start"
  by (simp add: slice_from_def)

lemma length_slice_from_le: "length (slice_from start xs) \<le> length xs"
  by (simp add: slice_from_def)

lemma set_slice_from: "set (slice_from start xs) \<subseteq> set xs"
  by (simp add: slice_from_def set_drop_subset)

lemma withinCap_sessionItems: "withinCap st \<Longrightarrow> int (length (sessionItems st sid)) \<le> MAX_ITEMS_PER_SESSION"
  by (auto simp: withinCap_def sessionItems_def orEmpty_def MAX_ITEMS_PER_SESSION_def split: option.splits)

lemma withinCap_setItems:
  "withinCap st \<Longrightarrow> int (length items) \<le> MAX_ITEMS_PER_SESSION \<Longrightarrow> withinCap (setItems st sid items)"
  by (auto simp: withinCap_def setItems_def)

lemma withinCap_appendItem: "withinCap st \<Longrightarrow> withinCap (appendItem st sid items x)"
  unfolding appendItem_def
  by (rule withinCap_setItems) (auto simp: slice_from_def MAX_ITEMS_PER_SESSION_def)

lemma clearLoop_items:
  "fst (clearLoop ss (m1, m2, m3)) k = (if k \<in> s_id ` set ss then None else m1 k)"
  by (induction ss arbitrary: m1 m2 m3) auto



lemma itemsBySession_clear:
  "itemsBySession (sessionReducer now st (ClearWorkspaceSessions ws)) k =
     (if k \<in> s_id ` set (workspaceSessions st ws) then None else itemsBySession st k)"
proof -
  obtain m1 m2 m3 where c: "clearLoop (workspaceSessions st ws)
      (itemsBySession st, sessionStatusById st, planBySession st) = (m1, m2, m3)"
    by (cases "clearLoop (workspaceSessions st ws)
      (itemsBySession st, sessionStatusById st, planBySession st)") auto
  have "m1 k = (if k \<in> s_id ` set (workspaceSessions st ws) then None else itemsBySession st k)"
    using clearLoop_items[of "workspaceSessions st ws" "itemsBySession st" "sessionStatusById st" "planBySession st" k]
    by (simp add: c)
  then show ?thesis by (simp add: Let_def c)
qed

lemma itemsBySession_other:
  "itemsBySession (sessionReducer now st (SetActiveSessionId w s)) = itemsBySession st"
  "itemsBySession (sessionReducer now st (EnsureSession w sid t)) = itemsBySession st"
  "itemsBySession (sessionReducer now st (RemoveSession w sid)) = itemsBySession st"
  "itemsBySession (sessionReducer now st (MarkProcessing sid b)) = itemsBySession st"
  "itemsBySession (sessionReducer now st (MarkUnread sid b)) = itemsBySession st"
  "itemsBySession (sessionReducer now st (SetSessions w ss)) = itemsBySession st"
  "itemsBySession (sessionReducer now st (SetSessionListLoading w b)) = itemsBySession st"
  "itemsBySession (sessionReducer now st (SetSessionPlan sid p)) = itemsBySession st"
  "itemsBySession (sessionReducer now st (SetSessionTitle w sid t2)) = itemsBySession st"
  by (simp_all add: Let_def split: option.splits)

lemma withinCap_update:
  "withinCap st \<Longrightarrow> withinCap (setItems st sid ((sessionItems st sid)[idx := x]))"
  by (rule withinCap_setItems) (simp_all add: withinCap_sessionItems)

lemma withinCap_step: "withinCap st \<Longrightarrow> withinCap (sessionReducer now st a)"
proof (cases a)
  case (ClearWorkspaceSessions ws)
  assume "withinCap st"
  then show ?thesis unfolding ClearWorkspaceSessions withinCap_def
    by (auto simp: itemsBySession_clear simp del: sessionReducer.simps split: if_splits)
next
  case (SetSessionItems sid items)
  assume "withinCap st"
  then show ?thesis unfolding SetSessionItems
    by (auto intro!: withinCap_setItems simp: slice_from_def MAX_ITEMS_PER_SESSION_def)
qed (simp_all add: withinCap_def[of "sessionReducer _ _ _"] itemsBySession_other
      del: sessionReducer.simps,
    simp_all add: withinCap_def[symmetric] Let_def withinCap_appendItem withinCap_update
      split: option.splits)


lemma withinCap_initial: "withinCap initialState"
  by (simp add: withinCap_def initialState_def)

lemma withinCap_dispatchAll: "withinCap st \<Longrightarrow> withinCap (dispatchAll st acts)"
proof (induction acts rule: rev_induct)
  case Nil
  then show ?case by (simp add: dispatchAll_def)
next
  case (snoc p acts)
  obtain now a where p: "p = (now, a)" by (cases p)
  from snoc have "withinCap (dispatchAll st acts)" by simp
  then have "withinCap (sessionReducer now (dispatchAll st acts) a)" by (rule withinCap_step)
  then show ?case by (simp add: dispatchAll_def p)
qed

lemma sessionItems_setItems [simp]:
  "sessionItems (setItems st sid xs) sid' = (if sid' = sid then xs else sessionItems st sid')"
  by (simp add: sessionItems_def setItems_def orEmpty_def)

lemma sessionItems_appendItem [simp]:
  "sessionItems (appendItem st sid xs x) sid' =
     (if sid' = sid then slice_from (- MAX_ITEMS_PER_SESSION + 1) xs @ [x] else sessionItems st sid')"
  by (simp add: appendItem_def)

lemma target_present:
  assumes "target a = Some (sid, iid)"
  shows "\<exists>x \<in> set (sessionItems (sessionReducer now st a) sid). i_id x = iid"
proof (cases "findIndex (\<lambda>i. i_id i = iid) (sessionItems st sid)")
  case None
  with assms show ?thesis by (cases a) (auto simp: Let_def item_def)
next
  case (Some idx)
  then have lt: "idx < length (sessionItems st sid)" and hit: "i_id (sessionItems st sid ! idx) = iid"
    using findIndex_Some_lt[of "\<lambda>i. i_id i = iid" "sessionItems st sid" idx] by auto
  have keep: "\<exists>x \<in> set (sessionItems st sid). i_id x = iid"
    using lt hit nth_mem by blast
  have upd: "\<And>y. i_id y = iid \<Longrightarrow> \<exists>x \<in> set ((sessionItems st sid)[idx := y]). i_id x = iid"
    using lt set_update_memI by fastforce
  from assms Some keep upd hit show ?thesis
    by (cases a) (auto simp: Let_def spread_def)
qed

lemma target_appended_last:
  assumes "target a = Some (sid, iid)" and "\<forall>y \<in> set (sessionItems st sid). i_id y \<noteq> iid"
  shows "sessionItems (sessionReducer now st a) sid \<noteq> [] \<and>
         i_id (last (sessionItems (sessionReducer now st a) sid)) = iid"
proof -
  have "findIndex (\<lambda>i. i_id i = iid) (sessionItems st sid) = None"
    using assms(2) by (simp add: findIndex_None_iff)
  with assms(1) show ?thesis by (cases a) (auto simp: Let_def item_def)
qed


section \<open>Bounded retention\<close>

text \<open>
  Claim C1. In every state the reducer can reach from the initial state, and for every
  further action, no session holds more than \<open>MAX_ITEMS_PER_SESSION = 400\<close> items after
  the action, and the item the action appends or updates is still in the sequence: an
  action addressed to an item id leaves an item with that id in the session (as the
  last element when it had to be appended), and \<open>addUserMessage\<close> leaves its new user
  message as the last element. The truncation \<open>slice(-399)\<close> happens before the
  insertion, so it never removes the new item.
\<close>

theorem retention_cap:
  "withinCap (sessionReducer now (dispatchAll initialState acts) a) \<and>
   (\<forall>sid iid. target a = Some (sid, iid) \<longrightarrow>
      (\<exists>x \<in> set (sessionItems (sessionReducer now (dispatchAll initialState acts) a) sid). i_id x = iid) \<and>
      ((\<forall>y \<in> set (sessionItems (dispatchAll initialState acts) sid). i_id y \<noteq> iid) \<longrightarrow>
         sessionItems (sessionReducer now (dispatchAll initialState acts) a) sid \<noteq> [] \<and>
         i_id (last (sessionItems (sessionReducer now (dispatchAll initialState acts) a) sid)) = iid)) \<and>
   (\<forall>ws sid txt. a = AddUserMessage ws sid txt \<longrightarrow>
      sessionItems (sessionReducer now (dispatchAll initialState acts) a) sid \<noteq> [] \<and>
      last (sessionItems (sessionReducer now (dispatchAll initialState acts) a) sid) =
        (item (ascii ''user-'' @ String_int now) KindMessage)\<lparr>i_role := Some User, i_text := Some txt\<rparr>)"
proof (intro conjI allI impI)
  show "withinCap (sessionReducer now (dispatchAll initialState acts) a)"
    by (rule withinCap_step, rule withinCap_dispatchAll, rule withinCap_initial)
next
  fix sid iid assume "target a = Some (sid, iid)"
  then show "\<exists>x \<in> set (sessionItems (sessionReducer now (dispatchAll initialState acts) a) sid). i_id x = iid"
    by (rule target_present)
next
  fix sid iid
  assume "target a = Some (sid, iid)"
    and "\<forall>y \<in> set (sessionItems (dispatchAll initialState acts) sid). i_id y \<noteq> iid"
  then show "sessionItems (sessionReducer now (dispatchAll initialState acts) a) sid \<noteq> []"
    and "i_id (last (sessionItems (sessionReducer now (dispatchAll initialState acts) a) sid)) = iid"
    using target_appended_last by blast+
next
  fix ws sid body assume "a = AddUserMessage ws sid body"
  then show "sessionItems (sessionReducer now (dispatchAll initialState acts) a) sid \<noteq> []"
    and "last (sessionItems (sessionReducer now (dispatchAll initialState acts) a) sid) =
        (item (ascii ''user-'' @ String_int now) KindMessage)\<lparr>i_role := Some User, i_text := Some body\<rparr>"
    by (simp_all add: Let_def)
qed


theorem retention_cap_witness:
  "target (AppendToolOutput (ascii ''s1'') (ascii ''t1'') (ascii ''out'')) = Some (ascii ''s1'', ascii ''t1'') \<and>
   sessionItems (dispatchAll initialState []) (ascii ''s1'') = [] \<and>
   i_id (last (sessionItems (sessionReducer 0 (dispatchAll initialState [])
           (AppendToolOutput (ascii ''s1'') (ascii ''t1'') (ascii ''out''))) (ascii ''s1''))) = ascii ''t1'' \<and>
   i_text (last (sessionItems (sessionReducer 7 (dispatchAll initialState [])
           (AddUserMessage (ascii ''w'') (ascii ''s1'') (ascii ''hi''))) (ascii ''s1''))) = Some (ascii ''hi'')"
  using retention_cap [of 0 "[]" "AppendToolOutput (ascii ''s1'') (ascii ''t1'') (ascii ''out'')"]
        retention_cap [of 7 "[]" "AddUserMessage (ascii ''w'') (ascii ''s1'') (ascii ''hi'')"]
  by (simp add: dispatchAll_def initialState_def sessionItems_def orEmpty_def item_def)

section \<open>The TL;DR summary\<close>

text \<open>
  Claim C3. With a baseline and at least one item, \<open>buildSummary\<close> returns the summary
  the specification describes (\<open>summary_spec\<close>): when the four deltas are zero,
  \<open>Working...\<close> (with the ellipsis character) if processing, else \<open>Waiting for approval\<close>
  if an approval is pending, else \<open>No new activity\<close>; otherwise the qualifying clauses
  joined by a comma in the order plan, files, tools (only if no files changed),
  messages (only if no other clause qualified), each noun in the plural exactly when its
  count is not 1; and when no clause qualified, \<open>Working...\<close> if processing, else
  \<open>Caught up\<close>. The scenario of the specification: a plan delta of 2, every other delta
  zero, not processing, gives \<open>2 tasks done\<close>.
\<close>

theorem summary_refines_spec:
  "buildSummary (Some b) c p a True = Some (summary_spec (activity b) c p a) \<and>
   buildSummary
     (Some \<lparr>openedAt = t, activity = \<lparr>messageCount = 0, toolCallCount = 0, diffCount = 0, planCompleted = 0\<rparr>\<rparr>)
     \<lparr>messageCount = 0, toolCallCount = 0, diffCount = 0, planCompleted = 2\<rparr> False a True
     = Some (ascii ''2 tasks done'')"
proof
  show "buildSummary (Some b) c p a True = Some (summary_spec (activity b) c p a)"
    by (simp add: buildSummary_def summary_spec_def clause_def Let_def)
next
  show "buildSummary
     (Some \<lparr>openedAt = t, activity = \<lparr>messageCount = 0, toolCallCount = 0, diffCount = 0, planCompleted = 0\<rparr>\<rparr>)
     \<lparr>messageCount = 0, toolCallCount = 0, diffCount = 0, planCompleted = 2\<rparr> False a True
     = Some (ascii ''2 tasks done'')"
    by (simp add: buildSummary_def String_int_def digits.simps digit_def ascii_def)
qed

text \<open>
  Claim C10. Without a baseline, the fallback summary of a session with at least one item
  never mentions tool actions: \<open>buildCurrentSummary\<close> does not depend on \<open>toolCallCount\<close>,
  and a snapshot whose plan, diff and message counters are zero is summarised as exactly
  \<open>Session active\<close>, whatever its tool counter.
\<close>

theorem fallback_ignores_tools:
  "buildCurrentSummary \<lparr>messageCount = 0, toolCallCount = n, diffCount = 0, planCompleted = 0\<rparr>
     = ascii ''Session active'' \<and>
   buildSummary None \<lparr>messageCount = 0, toolCallCount = n, diffCount = 0, planCompleted = 0\<rparr> p a True
     = Some (ascii ''Session active'') \<and>
   buildCurrentSummary (c\<lparr>toolCallCount := n\<rparr>) = buildCurrentSummary c"
  by (simp add: buildCurrentSummary_def buildSummary_def)

section \<open>Workspace teardown\<close>




section \<open>Tool-call actions on one item\<close>

lemma findIndex_update_same:
  "findIndex p xs = Some idx \<Longrightarrow> p y \<Longrightarrow> findIndex p (xs[idx := y]) = Some idx"
proof (induction xs arbitrary: idx)
  case Nil
  then show ?case by simp
next
  case (Cons x xs)
  then show ?case by (cases idx) (auto split: if_splits)
qed

lemma findItem_update:
  assumes "findIndex (\<lambda>i. i_id i = iid) (sessionItems st sid) = Some idx" and "i_id y = iid"
  shows "findItem (setItems st sid ((sessionItems st sid)[idx := y])) sid iid = Some y"
proof -
  have "idx < length (sessionItems st sid)" using assms(1) findIndex_Some_lt by fastforce
  then show ?thesis
    using findIndex_update_same[OF assms(1), of y] assms(2) by (simp add: findItem_def)
qed

lemma findItem_SomeD:
  "findItem st sid iid = Some x \<Longrightarrow>
     \<exists>idx. findIndex (\<lambda>i. i_id i = iid) (sessionItems st sid) = Some idx \<and>
           sessionItems st sid ! idx = x \<and> i_id x = iid"
  using findIndex_Some_lt[of "\<lambda>i. i_id i = iid" "sessionItems st sid"]
  by (auto simp: findItem_def split: option.splits)

lemma toolStep_existing:
  assumes "findItem st sid iid = Some x" and "i_kind x = KindTool" and "toolActionOn sid iid a"
  shows "\<exists>x'. findItem (sessionReducer now st a) sid iid = Some x' \<and> i_kind x' = KindTool \<and>
           i_status x' = orElse (statusOf a) (i_status x) \<and>
           orEmpty (i_output x') = orEmpty (i_output x) @ outputDeltas [a] \<and>
           orEmpty (i_changes x') = orEmpty (i_changes x) @ changeLists [a]"
proof -
  from findItem_SomeD[OF assms(1)] obtain idx where
    idx: "findIndex (\<lambda>i. i_id i = iid) (sessionItems st sid) = Some idx"
    and x: "sessionItems st sid ! idx = x" and id: "i_id x = iid" by blast
  show ?thesis
  proof (cases a)
    case (AppendToolOutput s i d)
    with assms(3) have [simp]: "s = sid" "i = iid" by auto
    show ?thesis using assms(2) idx x id
      by (simp add: AppendToolOutput Let_def findItem_update orElse_def orEmpty_def)
  next
    case (SetToolStatus s i d)
    with assms(3) have [simp]: "s = sid" "i = iid" by auto
    show ?thesis using assms(2) idx x id
      by (simp add: SetToolStatus Let_def findItem_update orElse_def orEmpty_def)
  next
    case (AppendToolChanges s i d)
    with assms(3) have [simp]: "s = sid" "i = iid" by auto
    show ?thesis using assms(2) idx x id
      by (simp add: AppendToolChanges Let_def findItem_update orElse_def orEmpty_def)
  qed (use assms(3) in simp_all)
qed

lemma findIndex_snoc_new:
  "\<forall>x \<in> set zs. \<not> p x \<Longrightarrow> p y \<Longrightarrow> findIndex p (zs @ [y]) = Some (length zs)"
  by (induction zs) auto

lemma findItem_appendItem:
  assumes "findItem st sid iid = None" and "i_id y = iid"
  shows "findItem (appendItem st sid (sessionItems st sid) y) sid iid = Some y"
proof -
  have none: "\<forall>x \<in> set (sessionItems st sid). i_id x \<noteq> iid"
    using assms(1) by (auto simp: findItem_def findIndex_None_iff split: option.splits)
  then have "\<forall>x \<in> set (slice_from (- MAX_ITEMS_PER_SESSION + 1) (sessionItems st sid)). i_id x \<noteq> iid"
    using set_slice_from by fastforce
  then have "findIndex (\<lambda>i. i_id i = iid)
               (slice_from (- MAX_ITEMS_PER_SESSION + 1) (sessionItems st sid) @ [y])
             = Some (length (slice_from (- MAX_ITEMS_PER_SESSION + 1) (sessionItems st sid)))"
    using assms(2) by (intro findIndex_snoc_new) auto
  then show ?thesis by (simp add: findItem_def)
qed

lemma toolStep_absent:
  assumes "findItem st sid iid = None" and "toolActionOn sid iid a"
  shows "\<exists>x'. findItem (sessionReducer now st a) sid iid = Some x' \<and> i_kind x' = KindTool \<and>
           i_status x' = orElse (statusOf a) (Some (ascii ''in_progress'')) \<and>
           orEmpty (i_output x') = outputDeltas [a] \<and>
           orEmpty (i_changes x') = changeLists [a]"
proof -
  have none: "findIndex (\<lambda>i. i_id i = iid) (sessionItems st sid) = None"
    using assms(1) by (simp add: findItem_def split: option.splits)
  show ?thesis
  proof (cases a)
    case (AppendToolOutput s i d)
    with assms(2) have [simp]: "s = sid" "i = iid" by auto
    show ?thesis using none findItem_appendItem[OF assms(1)]
      by (simp add: AppendToolOutput Let_def orElse_def orEmpty_def item_def)
  next
    case (SetToolStatus s i d)
    with assms(2) have [simp]: "s = sid" "i = iid" by auto
    show ?thesis using none findItem_appendItem[OF assms(1)]
      by (simp add: SetToolStatus Let_def orElse_def orEmpty_def item_def)
  next
    case (AppendToolChanges s i d)
    with assms(2) have [simp]: "s = sid" "i = iid" by auto
    show ?thesis using none findItem_appendItem[OF assms(1)]
      by (simp add: AppendToolChanges Let_def orElse_def orEmpty_def item_def)
  qed (use assms(2) in simp_all)
qed

lemma outputDeltas_Cons: "outputDeltas (a # rest) = outputDeltas [a] @ outputDeltas rest"
  by (cases a) simp_all

lemma changeLists_Cons: "changeLists (a # rest) = changeLists [a] @ changeLists rest"
  by (cases a) simp_all

lemma dispatchAll_Cons:
  "dispatchAll st ((now, a) # acts) = dispatchAll (sessionReducer now st a) acts"
  by (simp add: dispatchAll_def)

lemma toolRun_existing:
  assumes "\<forall>p \<in> set acts. toolActionOn sid iid (snd p)"
    and "findItem st sid iid = Some x" and "i_kind x = KindTool"
  shows "\<exists>x'. findItem (dispatchAll st acts) sid iid = Some x' \<and> i_kind x' = KindTool \<and>
           i_status x' = orElse (lastStatus (map snd acts)) (i_status x) \<and>
           orEmpty (i_output x') = orEmpty (i_output x) @ outputDeltas (map snd acts) \<and>
           orEmpty (i_changes x') = orEmpty (i_changes x) @ changeLists (map snd acts)"
  using assms
proof (induction acts arbitrary: st x)
  case Nil
  then show ?case by (simp add: dispatchAll_def orElse_def)
next
  case (Cons p acts)
  obtain now a where p: "p = (now, a)" by (cases p)
  from Cons.prems p have a: "toolActionOn sid iid a"
    and rest: "\<forall>p \<in> set acts. toolActionOn sid iid (snd p)" by auto
  from toolStep_existing[OF Cons.prems(2,3) a, of now] obtain x1 where
    x1: "findItem (sessionReducer now st a) sid iid = Some x1" "i_kind x1 = KindTool"
        "i_status x1 = orElse (statusOf a) (i_status x)"
        "orEmpty (i_output x1) = orEmpty (i_output x) @ outputDeltas [a]"
        "orEmpty (i_changes x1) = orEmpty (i_changes x) @ changeLists [a]" by blast
  from Cons.IH[OF rest x1(1,2)] obtain x' where
    x': "findItem (dispatchAll (sessionReducer now st a) acts) sid iid = Some x'" "i_kind x' = KindTool"
        "i_status x' = orElse (lastStatus (map snd acts)) (i_status x1)"
        "orEmpty (i_output x') = orEmpty (i_output x1) @ outputDeltas (map snd acts)"
        "orEmpty (i_changes x') = orEmpty (i_changes x1) @ changeLists (map snd acts)" by blast
  have "i_status x' = orElse (lastStatus (map snd (p # acts))) (i_status x)"
    using x'(3) x1(3) by (simp add: p orElse_def split: option.splits)
  moreover have "orEmpty (i_output x') = orEmpty (i_output x) @ outputDeltas (map snd (p # acts))"
    using x'(4) x1(4) outputDeltas_Cons[of a "map snd acts"] by (simp add: p)
  moreover have "orEmpty (i_changes x') = orEmpty (i_changes x) @ changeLists (map snd (p # acts))"
    using x'(5) x1(5) changeLists_Cons[of a "map snd acts"] by (simp add: p)
  ultimately show ?case using x'(1,2) by (simp add: p dispatchAll_Cons)
qed


text \<open>
  Claim C2. Take any non-empty sequence of \<open>setToolStatus\<close>, \<open>appendToolOutput\<close> and
  \<open>appendToolChanges\<close> actions addressed to one item id of one session, dispatched from
  a state in which that id is free or held by a tool item (no item of another kind
  occupies it). Afterwards the id holds a tool item whose status is the last explicitly
  set status (when none was set: the status it had before, or \<open>in_progress\<close> for an item
  these actions created), whose output is what it was before followed by all output
  deltas in dispatch order, and whose changes are what they were before followed by all
  change lists in dispatch order. An absent \<open>output\<close> or \<open>changes\<close> reads as empty, as
  the reducer reads it. These actions never add a second item, so the retention cap
  cannot evict the item while they run.
\<close>

theorem tool_actions_accumulate:
  assumes "\<forall>p \<in> set acts. toolActionOn sid iid (snd p)" and "acts \<noteq> []"
    and "\<forall>x. findItem st sid iid = Some x \<longrightarrow> i_kind x = KindTool"
  shows "\<exists>x'. findItem (dispatchAll st acts) sid iid = Some x' \<and> i_kind x' = KindTool \<and>
           i_status x' = orElse (lastStatus (map snd acts))
                           (case findItem st sid iid of
                              None \<Rightarrow> Some (ascii ''in_progress'')
                            | Some x \<Rightarrow> i_status x) \<and>
           orEmpty (i_output x') =
             (case findItem st sid iid of None \<Rightarrow> [] | Some x \<Rightarrow> orEmpty (i_output x))
             @ outputDeltas (map snd acts) \<and>
           orEmpty (i_changes x') =
             (case findItem st sid iid of None \<Rightarrow> [] | Some x \<Rightarrow> orEmpty (i_changes x))
             @ changeLists (map snd acts)"
proof (cases "findItem st sid iid")
  case (Some x)
  with assms(3) have "i_kind x = KindTool" by simp
  from toolRun_existing[OF assms(1) Some this] show ?thesis by (simp add: Some)
next
  case None
  from assms(2) obtain now a rest where acts: "acts = (now, a) # rest" by (cases acts) auto
  from assms(1) acts have a: "toolActionOn sid iid a"
    and rest: "\<forall>p \<in> set rest. toolActionOn sid iid (snd p)" by auto
  from toolStep_absent[OF None a, of now] obtain x1 where
    x1: "findItem (sessionReducer now st a) sid iid = Some x1" "i_kind x1 = KindTool"
        "i_status x1 = orElse (statusOf a) (Some (ascii ''in_progress''))"
        "orEmpty (i_output x1) = outputDeltas [a]"
        "orEmpty (i_changes x1) = changeLists [a]" by blast
  from toolRun_existing[OF rest x1(1,2)] obtain x' where
    x': "findItem (dispatchAll (sessionReducer now st a) rest) sid iid = Some x'" "i_kind x' = KindTool"
        "i_status x' = orElse (lastStatus (map snd rest)) (i_status x1)"
        "orEmpty (i_output x') = orEmpty (i_output x1) @ outputDeltas (map snd rest)"
        "orEmpty (i_changes x') = orEmpty (i_changes x1) @ changeLists (map snd rest)" by blast
  have "i_status x' = orElse (lastStatus (map snd acts)) (Some (ascii ''in_progress''))"
    using x'(3) x1(3) by (simp add: acts orElse_def split: option.splits)
  moreover have "orEmpty (i_output x') = outputDeltas (map snd acts)"
    using x'(4) x1(4) outputDeltas_Cons[of a "map snd rest"] by (simp add: acts)
  moreover have "orEmpty (i_changes x') = changeLists (map snd acts)"
    using x'(5) x1(5) changeLists_Cons[of a "map snd rest"] by (simp add: acts)
  ultimately show ?thesis using x'(1,2) by (simp add: None acts dispatchAll_Cons)
qed


theorem tool_actions_accumulate_witness:
  "\<exists>x'. findItem
           (dispatchAll initialState
              [(0, AppendToolOutput (ascii ''s'') (ascii ''t'') (ascii ''ab'')),
               (0, SetToolStatus (ascii ''s'') (ascii ''t'') (ascii ''running'')),
               (0, AppendToolChanges (ascii ''s'') (ascii ''t'')
                     [\<lparr>c_path = ascii ''a.txt'', c_kind = Some (ascii ''MOD''), c_diff = None\<rparr>]),
               (0, SetToolStatus (ascii ''s'') (ascii ''t'') (ascii ''completed'')),
               (0, AppendToolOutput (ascii ''s'') (ascii ''t'') (ascii ''cd''))])
           (ascii ''s'') (ascii ''t'') = Some x' \<and>
         i_kind x' = KindTool \<and>
         i_status x' = Some (ascii ''completed'') \<and>
         orEmpty (i_output x') = ascii ''abcd'' \<and>
         orEmpty (i_changes x') =
           [\<lparr>c_path = ascii ''a.txt'', c_kind = Some (ascii ''MOD''), c_diff = None\<rparr>]"
proof -
  let ?acts = "[(0, AppendToolOutput (ascii ''s'') (ascii ''t'') (ascii ''ab'')),
               (0, SetToolStatus (ascii ''s'') (ascii ''t'') (ascii ''running'')),
               (0, AppendToolChanges (ascii ''s'') (ascii ''t'')
                     [\<lparr>c_path = ascii ''a.txt'', c_kind = Some (ascii ''MOD''), c_diff = None\<rparr>]),
               (0, SetToolStatus (ascii ''s'') (ascii ''t'') (ascii ''completed'')),
               (0::int, AppendToolOutput (ascii ''s'') (ascii ''t'') (ascii ''cd''))]"
  have h1: "\<forall>p \<in> set ?acts. toolActionOn (ascii ''s'') (ascii ''t'') (snd p)" by simp
  have h2: "?acts \<noteq> []" by simp
  have h3: "\<forall>x. findItem initialState (ascii ''s'') (ascii ''t'') = Some x \<longrightarrow> i_kind x = KindTool"
    by (simp add: findItem_def initialState_def sessionItems_def orEmpty_def)
  have none: "findItem initialState (ascii ''s'') (ascii ''t'') = None"
    by (simp add: findItem_def initialState_def sessionItems_def orEmpty_def)
  from tool_actions_accumulate[OF h1 h2 h3] show ?thesis
    unfolding none by (simp add: orElse_def ascii_def)
qed

section \<open>Uniqueness of item ids\<close>

lemma idsDistinct_setItems:
  "idsDistinct st \<Longrightarrow> distinct (map i_id items) \<Longrightarrow> idsDistinct (setItems st sid items)"
  by (auto simp: idsDistinct_def setItems_def)

lemma idsDistinct_sessionItems: "idsDistinct st \<Longrightarrow> distinct (map i_id (sessionItems st sid))"
  by (auto simp: idsDistinct_def sessionItems_def orEmpty_def split: option.splits)

lemma distinct_slice_from: "distinct (map f xs) \<Longrightarrow> distinct (map f (slice_from k xs))"
  by (simp add: slice_from_def distinct_drop drop_map[symmetric])

lemma idsDistinct_appendItem:
  assumes "idsDistinct st" and "\<forall>y \<in> set (sessionItems st sid). i_id y \<noteq> i_id x"
  shows "idsDistinct (appendItem st sid (sessionItems st sid) x)"
proof -
  have "distinct (map i_id (slice_from (- MAX_ITEMS_PER_SESSION + 1) (sessionItems st sid)))"
    using assms(1) by (intro distinct_slice_from idsDistinct_sessionItems)
  moreover have "i_id x \<notin> i_id ` set (slice_from (- MAX_ITEMS_PER_SESSION + 1) (sessionItems st sid))"
    using assms(2) set_slice_from by fastforce
  ultimately show ?thesis
    unfolding appendItem_def using assms(1) by (intro idsDistinct_setItems) auto
qed

lemma map_id_update: "i_id y = i_id (xs ! idx) \<Longrightarrow> map i_id (xs[idx := y]) = map i_id xs"
  by (metis list_update_id map_update)

lemma idsDistinct_update:
  assumes "idsDistinct st" and "i_id y = i_id (sessionItems st sid ! idx)"
  shows "idsDistinct (setItems st sid ((sessionItems st sid)[idx := y]))"
  using assms by (intro idsDistinct_setItems) (simp_all add: map_id_update idsDistinct_sessionItems)

lemma idsDistinct_same: "itemsBySession st' = itemsBySession st \<Longrightarrow> idsDistinct st' = idsDistinct st"
  by (simp add: idsDistinct_def)

lemma not_idsDistinctI:
  "itemsBySession st sid = Some items \<Longrightarrow> \<not> distinct (map i_id items) \<Longrightarrow> \<not> idsDistinct st"
  by (auto simp: idsDistinct_def)

text \<open>
  Claim C7 says that in every reachable state the item ids of a session are pairwise
  distinct, \<open>addUserMessage\<close> and \<open>setSessionItems\<close> on the output of
  \<open>messagePartsToItems\<close> included. The code breaks it on both paths: \<open>addUserMessage\<close>
  mints \<open>user-<Date.now()>\<close> with no further suffix (the assistant and reasoning ids
  minted elsewhere add a random one), so two user messages reduced at the same clock
  reading carry the same id; and \<open>messagePartsToItems\<close> gives every text part of a
  message the id \<open><messageId>-text\<close>, which \<open>setSessionItems\<close> stores as it is.
\<close>

theorem ids_not_always_distinct:
  "\<not> idsDistinct (dispatchAll initialState
        [(5, AddUserMessage (ascii ''w'') (ascii ''s'') (ascii ''a'')),
         (5, AddUserMessage (ascii ''w'') (ascii ''s'') (ascii ''b''))]) \<and>
   \<not> idsDistinct (sessionReducer 0 initialState
        (SetSessionItems (ascii ''s'')
           (messagePartsToItems (\<lambda>v. None) (ascii ''m'') Assistant
              [PartText (ascii ''a''), PartText (ascii ''b'')])))"
proof
  show "\<not> idsDistinct (dispatchAll initialState
        [(5, AddUserMessage (ascii ''w'') (ascii ''s'') (ascii ''a'')),
         (5, AddUserMessage (ascii ''w'') (ascii ''s'') (ascii ''b''))])"
    by (rule not_idsDistinctI[where sid = "ascii ''s''"])
       (simp add: dispatchAll_def initialState_def sessionItems_def orEmpty_def appendItem_def
          setItems_def slice_from_def MAX_ITEMS_PER_SESSION_def item_def Let_def, simp)
next
  show "\<not> idsDistinct (sessionReducer 0 initialState
        (SetSessionItems (ascii ''s'')
           (messagePartsToItems (\<lambda>v. None) (ascii ''m'') Assistant
              [PartText (ascii ''a''), PartText (ascii ''b'')])))"
    by (rule not_idsDistinctI[where sid = "ascii ''s''"])
       (simp add: initialState_def setItems_def slice_from_def MAX_ITEMS_PER_SESSION_def
          item_def messagePartsToItems_def, simp)
qed

theorem ids_not_always_distinct_witness:
  "(\<exists>sessionId items.
      itemsBySession (dispatchAll initialState
        [(5, AddUserMessage (ascii ''w'') (ascii ''s'') (ascii ''a'')),
         (5, AddUserMessage (ascii ''w'') (ascii ''s'') (ascii ''b''))]) sessionId = Some items \<and>
      \<not> distinct (map i_id items)) \<and>
   (\<exists>sessionId items.
      itemsBySession (sessionReducer 0 initialState
        (SetSessionItems (ascii ''s'')
           (messagePartsToItems (\<lambda>v. None) (ascii ''m'') Assistant
              [PartText (ascii ''a''), PartText (ascii ''b'')]))) sessionId = Some items \<and>
      \<not> distinct (map i_id items))"
  using ids_not_always_distinct unfolding idsDistinct_def by blast

text \<open>
  What the reducer does preserve: an action keeps the item ids of every session pairwise
  distinct, provided that for \<open>addUserMessage\<close> the minted id \<open>user-<now>\<close> is not already
  the id of an item of the session, and that for \<open>setSessionItems\<close> the retained (last
  400) items of the given list have pairwise distinct ids. The id-addressed actions need
  no proviso: they append only when the id is free.
\<close>

theorem ids_stay_distinct:
  assumes "idsDistinct st"
    and "case a of
           AddUserMessage ws sid body \<Rightarrow>
             (\<forall>y \<in> set (sessionItems st sid). i_id y \<noteq> ascii ''user-'' @ String_int now)
         | SetSessionItems sid items \<Rightarrow> distinct (map i_id (slice_from (- MAX_ITEMS_PER_SESSION) items))
         | _ \<Rightarrow> True"
  shows "idsDistinct (sessionReducer now st a)"
proof (cases "target a")
  case (Some p)
  obtain sid iid where p: "p = (sid, iid)" by (cases p)
  note tgt = Some
  show ?thesis
  proof (cases "findIndex (\<lambda>i. i_id i = iid) (sessionItems st sid)")
    case None
    then have "\<forall>y \<in> set (sessionItems st sid). i_id y \<noteq> iid" by (simp add: findIndex_None_iff)
    then have "\<And>x. i_id x = iid \<Longrightarrow> idsDistinct (appendItem st sid (sessionItems st sid) x)"
      using assms(1) by (intro idsDistinct_appendItem) auto
    with tgt p None show ?thesis by (cases a) (auto simp: Let_def item_def)
  next
    case (Some idx)
    then have hit: "i_id (sessionItems st sid ! idx) = iid"
      using findIndex_Some_lt[of "\<lambda>i. i_id i = iid" "sessionItems st sid" idx] by auto
    have "\<And>y. i_id y = iid \<Longrightarrow> idsDistinct (setItems st sid ((sessionItems st sid)[idx := y]))"
      using assms(1) hit by (intro idsDistinct_update) auto
    with tgt p Some hit assms(1) show ?thesis by (cases a) (auto simp: Let_def spread_def)
  qed
next
  case None
  show ?thesis
  proof (cases a)
    case (AddUserMessage ws sid body)
    with assms show ?thesis by (simp add: Let_def idsDistinct_appendItem item_def)
  next
    case (SetSessionItems sid items)
    with assms show ?thesis by (simp add: idsDistinct_setItems)
  next
    case (ClearWorkspaceSessions ws)
    with assms(1) show ?thesis unfolding idsDistinct_def ClearWorkspaceSessions
      by (auto simp: itemsBySession_clear simp del: sessionReducer.simps split: if_splits)
  qed (use None assms(1) in \<open>simp_all add: idsDistinct_def[of "sessionReducer _ _ _"]
         itemsBySession_other del: sessionReducer.simps\<close>, simp_all add: idsDistinct_def)
qed


theorem ids_stay_distinct_witness:
  "idsDistinct (sessionReducer 5 initialState (AddUserMessage (ascii ''w'') (ascii ''s'') (ascii ''a''))) \<and>
   idsDistinct (sessionReducer 6
      (sessionReducer 5 initialState (AddUserMessage (ascii ''w'') (ascii ''s'') (ascii ''a'')))
      (AddUserMessage (ascii ''w'') (ascii ''s'') (ascii ''b'')))"
proof -
  let ?a = "AddUserMessage (ascii ''w'') (ascii ''s'') (ascii ''a'')"
  let ?b = "AddUserMessage (ascii ''w'') (ascii ''s'') (ascii ''b'')"
  have i0: "idsDistinct initialState" by (simp add: idsDistinct_def initialState_def)
  have c0: "case ?a of
           AddUserMessage ws sid body \<Rightarrow>
             (\<forall>y \<in> set (sessionItems initialState sid). i_id y \<noteq> ascii ''user-'' @ String_int 5)
         | SetSessionItems sid items \<Rightarrow> distinct (map i_id (slice_from (- MAX_ITEMS_PER_SESSION) items))
         | _ \<Rightarrow> True"
    by (simp add: initialState_def sessionItems_def orEmpty_def)
  have i1: "idsDistinct (sessionReducer 5 initialState ?a)"
    by (rule ids_stay_distinct[OF i0 c0])
  have c1: "case ?b of
           AddUserMessage ws sid body \<Rightarrow>
             (\<forall>y \<in> set (sessionItems (sessionReducer 5 initialState ?a) sid). i_id y \<noteq> ascii ''user-'' @ String_int 6)
         | SetSessionItems sid items \<Rightarrow> distinct (map i_id (slice_from (- MAX_ITEMS_PER_SESSION) items))
         | _ \<Rightarrow> True"
    by (simp add: initialState_def sessionItems_def orEmpty_def slice_from_def item_def
          appendItem_def setItems_def Let_def
          MAX_ITEMS_PER_SESSION_def String_int_def digits.simps digit_def)
  have i2: "idsDistinct (sessionReducer 6 (sessionReducer 5 initialState ?a) ?b)"
    by (rule ids_stay_distinct[OF i1 c1])
  from i1 i2 show ?thesis by simp
qed

section \<open>Sending a message: failure of the external send\<close>

lemma last_in_slice_from:
  "k < 0 \<Longrightarrow> xs \<noteq> [] \<Longrightarrow> last xs \<in> set (slice_from k xs)"
proof -
  assume k: "k < 0" and ne: "xs \<noteq> []"
  let ?n = "nat (int (length xs) + k)"
  have "?n < length xs" using k ne by (cases xs) auto
  then have "drop ?n xs \<noteq> []" and "last (drop ?n xs) = last xs" by simp_all
  then have "last xs \<in> set (drop ?n xs)" using last_in_set by metis
  then show ?thesis using k by (simp add: slice_from_def)
qed

lemma update_keeps_other:
  assumes "x \<in> set xs" and "i_id x \<noteq> iid" and "findIndex (\<lambda>i. i_id i = iid) xs = Some idx"
  shows "x \<in> set (xs[idx := y])"
proof -
  from assms(1) obtain j where j: "j < length xs" "xs ! j = x" by (auto simp: in_set_conv_nth)
  have "i_id (xs ! idx) = iid" using findIndex_Some_lt[OF assms(3)] by simp
  with assms(2) j have "j \<noteq> idx" by auto
  with j have "xs[idx := y] ! j = x" by simp
  with j(1) show ?thesis by (metis length_list_update nth_mem)
qed

lemma upsert_keeps_other:
  assumes "x \<in> set (sessionItems st sid)" and "i_id x \<noteq> i_id new"
    and "last (sessionItems st sid) = x"
  shows "x \<in> set (sessionItems (sessionReducer now st (UpsertItem sid new)) sid)"
proof (cases "findIndex (\<lambda>i. i_id i = i_id new) (sessionItems st sid)")
  case None
  have "sessionItems st sid \<noteq> []" using assms(1) by auto
  then have "x \<in> set (slice_from (- MAX_ITEMS_PER_SESSION + 1) (sessionItems st sid))"
    using last_in_slice_from[of "- MAX_ITEMS_PER_SESSION + 1" "sessionItems st sid"] assms(3)
    by (simp add: MAX_ITEMS_PER_SESSION_def)
  with None show ?thesis by (simp add: Let_def)
next
  case (Some idx)
  from update_keeps_other[OF assms(1,2) Some] Some show ?thesis by (simp add: Let_def)
qed

lemma upsert_findItem:
  "findItem (sessionReducer now st (UpsertItem sid new)) sid (i_id new) = Some new \<or>
   (\<exists>old. findItem (sessionReducer now st (UpsertItem sid new)) sid (i_id new) = Some (spread old new))"
proof (cases "findIndex (\<lambda>i. i_id i = i_id new) (sessionItems st sid)")
  case None
  then have "findItem st sid (i_id new) = None" by (simp add: findItem_def)
  from findItem_appendItem[OF this, of new] None show ?thesis by (simp add: Let_def)
next
  case (Some idx)
  have "i_id (spread (sessionItems st sid ! idx) new) = i_id new" by (simp add: spread_def)
  from findItem_update[OF Some this] Some show ?thesis by (auto simp: Let_def)
qed

lemma sessionItems_cong: "itemsBySession st' = itemsBySession st \<Longrightarrow> sessionItems st' = sessionItems st"
  by (auto simp: sessionItems_def)

lemma findItem_cong: "itemsBySession st' = itemsBySession st \<Longrightarrow> findItem st' = findItem st"
proof -
  assume "itemsBySession st' = itemsBySession st"
  then have e: "sessionItems st' = sessionItems st" by (rule sessionItems_cong)
  show ?thesis by (intro ext) (simp add: findItem_def e split: option.splits)
qed

lemma user_id_not_assistant_id:
  "ascii ''user-'' @ a \<noteq> ascii ''assistant-'' @ b"
  by (simp add: ascii_def)

text \<open>
  Claim C9. When \<open>sendMessage\<close> runs (a workspace and a target session are present) and
  the external send operation fails, no exception reaches the caller, the session's
  \<open>isProcessing\<close> flag is \<open>false\<close>, and both the optimistically appended user message and
  the pre-created empty assistant message are still in the session's item sequence:
  the failure is not rolled back. The handler of the failure is a single
  \<open>markProcessing\<close> action, which does not touch the item sequences.
\<close>

theorem send_failure_keeps_items:
  assumes "nonEmpty workspaceId = Some w"
    and "nonEmpty (targetSessionIdOf options workspaceId (reducerState ctrl)) = Some sid"
  shows "\<exists>ctrl'. sendMessage workspaceId txt options nowReducer now rnd (Inl e) ctrl = Inr ctrl' \<and>
           map_option isProcessing (sessionStatusById (reducerState ctrl') sid) = Some (Some False) \<and>
           (item (ascii ''user-'' @ String_int nowReducer) KindMessage)
              \<lparr>i_role := Some User, i_text := Some txt\<rparr>
             \<in> set (sessionItems (reducerState ctrl') sid) \<and>
           (\<exists>x. findItem (reducerState ctrl') sid
                   (ascii ''assistant-'' @ String_int now @ ascii ''-'' @ rnd) = Some x \<and>
                i_kind x = KindMessage \<and> i_role x = Some Assistant \<and> i_text x = Some [])"
proof -
  let ?u = "(item (ascii ''user-'' @ String_int nowReducer) KindMessage)
              \<lparr>i_role := Some User, i_text := Some txt\<rparr>"
  let ?aid = "ascii ''assistant-'' @ String_int now @ ascii ''-'' @ rnd"
  let ?a = "(item ?aid KindMessage)\<lparr>i_role := Some Assistant, i_text := Some []\<rparr>"
  let ?st1 = "sessionReducer nowReducer (reducerState ctrl) (AddUserMessage w sid txt)"
  let ?st2 = "sessionReducer nowReducer ?st1 (MarkProcessing sid True)"
  let ?st3 = "sessionReducer nowReducer ?st2 (SetSessionPlan sid None)"
  let ?st6 = "sessionReducer nowReducer ?st3 (UpsertItem sid ?a)"
  let ?st7 = "sessionReducer nowReducer ?st6 (MarkProcessing sid False)"
  have run: "\<exists>ctrl'. sendMessage workspaceId txt options nowReducer now rnd (Inl e) ctrl = Inr ctrl'
               \<and> reducerState ctrl' = ?st7"
    using assms by (simp add: sendMessage_def Let_def dispatch_def del: sessionReducer.simps)
  have aid: "i_id ?a = ?aid" by (simp add: item_def)
  have items3: "sessionItems ?st3 = sessionItems ?st1"
    by (intro sessionItems_cong) (simp only: itemsBySession_other)
  have u1: "sessionItems ?st1 sid \<noteq> []" "last (sessionItems ?st1 sid) = ?u"
    by (simp_all add: Let_def)
  then have u3: "?u \<in> set (sessionItems ?st3 sid)" "last (sessionItems ?st3 sid) = ?u"
    using items3 last_in_set by (metis, simp)
  have "i_id ?u \<noteq> i_id ?a"
    using user_id_not_assistant_id by (simp add: item_def)
  from upsert_keeps_other[OF u3(1) this u3(2)]
  have u6: "?u \<in> set (sessionItems ?st6 sid)" .
  have items7: "sessionItems ?st7 = sessionItems ?st6"
    by (intro sessionItems_cong) (simp only: itemsBySession_other)
  have find7: "findItem ?st7 = findItem ?st6"
    by (intro findItem_cong) (simp only: itemsBySession_other)
  have a6: "\<exists>x. findItem ?st6 sid ?aid = Some x \<and> i_kind x = KindMessage \<and>
              i_role x = Some Assistant \<and> i_text x = Some []"
    using upsert_findItem[of nowReducer ?st3 sid ?a] unfolding aid
    by (auto simp: spread_def orElse_def item_def)
  have p7: "map_option isProcessing (sessionStatusById ?st7 sid) = Some (Some False)"
    by simp
  from run obtain ctrl' where
    c: "sendMessage workspaceId txt options nowReducer now rnd (Inl e) ctrl = Inr ctrl'"
       "reducerState ctrl' = ?st7" by blast
  have u7: "?u \<in> set (sessionItems (reducerState ctrl') sid)"
    using u6 by (simp only: c(2) items7)
  have a7: "\<exists>x. findItem (reducerState ctrl') sid ?aid = Some x \<and> i_kind x = KindMessage \<and>
              i_role x = Some Assistant \<and> i_text x = Some []"
    using a6 by (simp only: c(2) find7)
  have p: "map_option isProcessing (sessionStatusById (reducerState ctrl') sid) = Some (Some False)"
    using p7 by (simp only: c(2))
  show ?thesis using c(1) u7 a7 p by blast
qed

theorem send_failure_keeps_items_witness:
  "\<exists>ctrl'. sendMessage (Some (ascii ''w'')) (ascii ''hi'')
             (Some \<lparr>o_modelId = None, o_providerId = None, o_sessionId = Some (ascii ''s'')\<rparr>)
             1 2 (ascii ''k3x9ab'') (Inl BackendError) initialController = Inr ctrl' \<and>
           map_option isProcessing (sessionStatusById (reducerState ctrl') (ascii ''s'')) = Some (Some False) \<and>
           (item (ascii ''user-'' @ String_int 1) KindMessage)
              \<lparr>i_role := Some User, i_text := Some (ascii ''hi'')\<rparr>
             \<in> set (sessionItems (reducerState ctrl') (ascii ''s'')) \<and>
           (\<exists>x. findItem (reducerState ctrl') (ascii ''s'')
                   (ascii ''assistant-'' @ String_int 2 @ ascii ''-'' @ ascii ''k3x9ab'') = Some x \<and>
                i_kind x = KindMessage \<and> i_role x = Some Assistant \<and> i_text x = Some [])"
proof -
  have h1: "nonEmpty (Some (ascii ''w'')) = Some (ascii ''w'')"
    by (simp add: nonEmpty_def ascii_def)
  have h2: "nonEmpty (targetSessionIdOf
              (Some \<lparr>o_modelId = None, o_providerId = None, o_sessionId = Some (ascii ''s'')\<rparr>)
              (Some (ascii ''w'')) (reducerState initialController)) = Some (ascii ''s'')"
    by (simp add: nonEmpty_def targetSessionIdOf_def orElse_def ascii_def)
  from send_failure_keeps_items[OF h1 h2] show ?thesis .
qed

section \<open>The event listener\<close>

text \<open>
  The only fault of the listener is the read of a property of \<open>params\<close> when \<open>params\<close> is
  \<open>undefined\<close> or \<open>null\<close>; everything below \<open>params\<close> is guarded or coerced.
\<close>

lemma onEvent_fault_only_nullish:
  "onEvent stringify ws now rnd ev ctrl = Raised f \<Longrightarrow>
     (e_params ev = JUndefined \<or> e_params ev = JNull) \<and> f = TypeError"
  by (auto simp: onEvent_def sessionUpdate_def withProp_def getProp_def Let_def
      split: if_splits JsValue.splits prod.splits)

text \<open>
  Claim C4 says that processing an envelope of the subscribed workspace never raises a
  fault, whatever the shape of \<open>params\<close>, a missing or \<open>null\<close> payload included. The
  listener breaks it: every case of its \<open>switch\<close> reads a property of \<open>params\<close> without
  a guard, so an envelope without \<open>params\<close> (the type declares it optional) or with
  \<open>params: null\<close> throws a \<open>TypeError\<close>, for each of the six methods. The guard exists one
  level down, for \<open>update\<close> and \<open>content\<close> inside \<open>session/update\<close>.
\<close>

theorem missing_params_raise:
  "onEvent stringify ws now rnd
     \<lparr>e_workspaceId = ws, e_method = ascii ''session/created'', e_params = JUndefined\<rparr> ctrl
     = Raised TypeError \<and>
   onEvent stringify ws now rnd
     \<lparr>e_workspaceId = ws, e_method = ascii ''content/updated'', e_params = JNull\<rparr> ctrl
     = Raised TypeError \<and>
   list_all (\<lambda>m. list_all (\<lambda>p.
       onEvent stringify ws now rnd \<lparr>e_workspaceId = ws, e_method = m, e_params = p\<rparr> ctrl
         = Raised TypeError) [JUndefined, JNull])
     [ascii ''session/created'', ascii ''session/updated'', ascii ''session/deleted'',
      ascii ''session/update'', ascii ''content/updated'', ascii ''turn/completed'']"
  by (simp add: onEvent_def sessionUpdate_def withProp_def getProp_def)

subsection \<open>Tool-call updates\<close>

lemma tool_output_exact:
  assumes "findItem st sid iid = Some x" and "i_kind x = KindTool"
  shows "findItem (sessionReducer now st (AppendToolOutput sid iid d)) sid iid
           = Some (x\<lparr>i_output := Some (orEmpty (i_output x) @ d)\<rparr>)"
proof -
  from findItem_SomeD[OF assms(1)] obtain idx where
    idx: "findIndex (\<lambda>i. i_id i = iid) (sessionItems st sid) = Some idx"
    and x: "sessionItems st sid ! idx = x" and id: "i_id x = iid" by blast
  show ?thesis using assms(2) idx x id by (simp add: Let_def findItem_update)
qed

lemma tool_changes_exact:
  assumes "findItem st sid iid = Some x" and "i_kind x = KindTool"
  shows "findItem (sessionReducer now st (AppendToolChanges sid iid cs)) sid iid
           = Some (x\<lparr>i_changes := Some (orEmpty (i_changes x) @ cs)\<rparr>)"
proof -
  from findItem_SomeD[OF assms(1)] obtain idx where
    idx: "findIndex (\<lambda>i. i_id i = iid) (sessionItems st sid) = Some idx"
    and x: "sessionItems st sid ! idx = x" and id: "i_id x = iid" by blast
  show ?thesis using assms(2) idx x id by (simp add: Let_def findItem_update)
qed

lemma tool_status_exact:
  assumes "findItem st sid iid = Some x" and "i_kind x = KindTool"
  shows "findItem (sessionReducer now st (SetToolStatus sid iid s)) sid iid
           = Some (x\<lparr>i_status := Some s\<rparr>)"
proof -
  from findItem_SomeD[OF assms(1)] obtain idx where
    idx: "findIndex (\<lambda>i. i_id i = iid) (sessionItems st sid) = Some idx"
    and x: "sessionItems st sid ! idx = x" and id: "i_id x = iid" by blast
  show ?thesis using assms(2) idx x id by (simp add: Let_def findItem_update)
qed

lemma toolItemShows_output:
  "toolItemShows ctrl sid iid t s d \<Longrightarrow> toolItemShows (dispatch now (AppendToolOutput sid iid delta) ctrl) sid iid t s d"
  unfolding toolItemShows_def dispatch_def
  using tool_output_exact[of "reducerState ctrl" sid iid _ now delta]
  by (auto simp del: sessionReducer.simps)

lemma toolItemShows_changes:
  "toolItemShows ctrl sid iid t s d \<Longrightarrow> toolItemShows (dispatch now (AppendToolChanges sid iid cs) ctrl) sid iid t s d"
  unfolding toolItemShows_def dispatch_def
  using tool_changes_exact[of "reducerState ctrl" sid iid _ now cs]
  by (auto simp del: sessionReducer.simps)

lemma toolItemShows_contentEntry:
  "toolItemShows ctrl sid iid t s d \<Longrightarrow> toolItemShows (toolContentEntry now sid iid ctrl entry) sid iid t s d"
  by (simp add: toolContentEntry_def Let_def toolItemShows_output toolItemShows_changes)

lemma toolItemShows_contentLoop:
  "toolItemShows ctrl sid iid t s d \<Longrightarrow> toolItemShows (foldl (toolContentEntry now sid iid) ctrl entries) sid iid t s d"
  by (induction entries arbitrary: ctrl) (simp_all add: toolItemShows_contentEntry)

lemma set_status_patch:
  assumes "findItem st sid iid = Some x" and "i_kind x = KindTool"
  shows "\<exists>idx < length (sessionItems st sid). sessionItems st sid ! idx = x \<and>
           sessionReducer now st (SetToolStatus sid iid s) =
             setItems st sid ((sessionItems st sid)[idx := x\<lparr>i_status := Some s\<rparr>])"
proof -
  from findItem_SomeD[OF assms(1)] obtain idx where
    idx: "findIndex (\<lambda>i. i_id i = iid) (sessionItems st sid) = Some idx"
    and x: "sessionItems st sid ! idx = x" and id: "i_id x = iid" by blast
  have "idx < length (sessionItems st sid)" using findIndex_Some_lt[OF idx] by simp
  then show ?thesis using assms(2) idx x by (auto simp: Let_def)
qed

lemma onEvent_tool_update:
  assumes "e_workspaceId ev = ws" and "e_method ev = ascii ''session/update''"
    and "e_params ev = JObj ps"
    and "String_js (nullish (lookupProp ps (ascii ''sessionId'')) (JStr [])) = sid" and "sid \<noteq> []"
    and "lookupProp ps (ascii ''update'') = JObj u"
    and "String_js (nullish (lookupProp u (ascii ''sessionUpdate'')) (JStr [])) = ty"
    and "ty = ascii ''tool_call'' \<or> ty = ascii ''tool_call_update''"
  shows "onEvent stringify ws now rnd ev ctrl = Done (toolCallUpdate stringify now sid ty (JObj u) ctrl)"
  using assms
  by (auto simp: onEvent_def sessionUpdate_def withProp_def getProp_def field_def Let_def)

lemma toolCallItem_fields:
  "i_id (toolCallItem stringify iid (JObj u)) = iid"
  "i_kind (toolCallItem stringify iid (JObj u)) = KindTool"
  "i_title (toolCallItem stringify iid (JObj u)) =
     Some (let kind = String_js (nullish (lookupProp u (ascii ''kind'')) (JStr []));
               title = String_js (nullish (lookupProp u (ascii ''title'')) (JStr (ascii ''Tool'')))
           in if kind = [] then title else kind @ ascii '': '' @ title)"
  "i_status (toolCallItem stringify iid (JObj u)) =
     Some (String_js (nullish (lookupProp u (ascii ''status'')) (JStr (ascii ''pending''))))"
  "i_detail (toolCallItem stringify iid (JObj u)) =
     Some (truncated 4000 (join newline (filterBoolean
        [Some (String_js (nullish (lookupProp u (ascii ''kind'')) (JStr []))),
         if truthy (lookupProp u (ascii ''rawInput''))
         then stringify (lookupProp u (ascii ''rawInput'')) else Some []])))"
  by (simp_all add: toolCallItem_def Let_def item_def field_def truncated_def)

lemma toolItemShows_upsert:
  assumes "i_id new = iid" and "i_kind new = KindTool" and "i_title new = Some t"
    and "i_status new = Some s" and "i_detail new = Some d"
  shows "toolItemShows (dispatch now (UpsertItem sid new) ctrl) sid iid t s d"
  using upsert_findItem[of now "reducerState ctrl" sid new] assms
  unfolding toolItemShows_def dispatch_def
  by (auto simp: spread_def orElse_def simp del: sessionReducer.simps)

lemma toolItemShows_status:
  "toolItemShows ctrl sid iid t s0 d \<Longrightarrow>
   toolItemShows (dispatch now (SetToolStatus sid iid s) ctrl) sid iid t s d"
  unfolding toolItemShows_def dispatch_def
  using tool_status_exact[of "reducerState ctrl" sid iid _ now s]
  by (auto simp del: sessionReducer.simps)

lemma toolCallUpdate_tool_call:
  assumes "String_js (nullish (lookupProp u (ascii ''toolCallId'')) (JStr [])) = tc" and "tc \<noteq> []"
  shows "toolItemShows (toolCallUpdate stringify now sid (ascii ''tool_call'') (JObj u) ctrl) sid
           (ascii ''tool-'' @ sid @ ascii ''-'' @ tc)
           (let kind = String_js (nullish (lookupProp u (ascii ''kind'')) (JStr []));
                title = String_js (nullish (lookupProp u (ascii ''title'')) (JStr (ascii ''Tool'')))
            in if kind = [] then title else kind @ ascii '': '' @ title)
           (String_js (nullish (lookupProp u (ascii ''status'')) (JStr (ascii ''pending''))))
           (truncated 4000 (join newline (filterBoolean
              [Some (String_js (nullish (lookupProp u (ascii ''kind'')) (JStr []))),
               if truthy (lookupProp u (ascii ''rawInput''))
               then stringify (lookupProp u (ascii ''rawInput'')) else Some []])))"
    (is "toolItemShows _ sid ?iid ?t ?s ?d")
proof -
  let ?c1 = "dispatch now (UpsertItem sid (toolCallItem stringify ?iid (JObj u))) ctrl"
  have c1: "toolItemShows ?c1 sid ?iid ?t ?s ?d"
    by (rule toolItemShows_upsert) (rule toolCallItem_fields)+
  let ?c2 = "case lookupProp u (ascii ''status'') of
               JStr s \<Rightarrow> if s \<noteq> [] then dispatch now (SetToolStatus sid ?iid s) ?c1 else ?c1
             | _ \<Rightarrow> ?c1"
  have c2: "toolItemShows ?c2 sid ?iid ?t ?s ?d"
  proof (cases "lookupProp u (ascii ''status'')")
    case (JStr s)
    show ?thesis
    proof (cases "s = []")
      case True
      with JStr c1 show ?thesis by simp
    next
      case False
      have "?s = s" using JStr by (simp add: nullish_def)
      with toolItemShows_status[OF c1, of now s] JStr False show ?thesis by simp
    qed
  qed (use c1 in simp_all)
  have "toolCallUpdate stringify now sid (ascii ''tool_call'') (JObj u) ctrl =
          (case lookupProp u (ascii ''content'') of
             JArr entries \<Rightarrow> foldl (toolContentEntry now sid ?iid) ?c2 entries
           | _ \<Rightarrow> ?c2)"
    using assms by (simp add: toolCallUpdate_def Let_def field_def)
  moreover have "toolItemShows (case lookupProp u (ascii ''content'') of
             JArr entries \<Rightarrow> foldl (toolContentEntry now sid ?iid) ?c2 entries
           | _ \<Rightarrow> ?c2) sid ?iid ?t ?s ?d"
    using c2 by (cases "lookupProp u (ascii ''content'')") (simp_all add: toolItemShows_contentLoop)
  ultimately show ?thesis by simp
qed

lemma toolCallUpdate_status_only:
  assumes "String_js (nullish (lookupProp u (ascii ''toolCallId'')) (JStr [])) = tc" and "tc \<noteq> []"
    and "lookupProp u (ascii ''status'') = JStr s" and "s \<noteq> []"
    and "\<not> isArray (lookupProp u (ascii ''content''))"
  shows "toolCallUpdate stringify now sid (ascii ''tool_call_update'') (JObj u) ctrl =
           dispatch now (SetToolStatus sid (ascii ''tool-'' @ sid @ ascii ''-'' @ tc) s) ctrl"
  using assms
  by (cases "lookupProp u (ascii ''content'')") (simp_all add: toolCallUpdate_def Let_def field_def)

text \<open>
  Claim C6. A \<open>tool_call\<close> update with a session id and a tool-call id upserts a tool
  item under \<open>tool-<sessionId>-<toolCallId>\<close>. After the event the item's title is
  \<open><kind>: <title>\<close> when the kind is non-empty and \<open><title>\<close> otherwise (the title
  defaulting to \<open>Tool\<close>), its status is the event's status, \<open>pending\<close> when the event
  carries none, and its detail is the kind followed, on a new line, by the
  JSON-stringified raw input (each only when non-empty), cut after 4000 code units and
  closed with an ellipsis when longer. This holds whatever content entries the event
  carries and whether or not the item existed before. A following \<open>tool_call_update\<close>
  for the same tool call that carries only a (non-empty) status replaces that item by the
  same item with the new status and changes nothing else in the controller.
\<close>

theorem tool_call_decoding:
  assumes "e_workspaceId ev1 = ws" and "e_method ev1 = ascii ''session/update''"
    and "e_params ev1 = JObj ps1"
    and "String_js (nullish (lookupProp ps1 (ascii ''sessionId'')) (JStr [])) = sid"
    and "lookupProp ps1 (ascii ''update'') = JObj u1"
    and "String_js (nullish (lookupProp u1 (ascii ''sessionUpdate'')) (JStr [])) = ascii ''tool_call''"
    and "String_js (nullish (lookupProp u1 (ascii ''toolCallId'')) (JStr [])) = tc"
    and "sid \<noteq> []" and "tc \<noteq> []"
    and "e_workspaceId ev2 = ws" and "e_method ev2 = ascii ''session/update''"
    and "e_params ev2 = JObj ps2"
    and "String_js (nullish (lookupProp ps2 (ascii ''sessionId'')) (JStr [])) = sid"
    and "lookupProp ps2 (ascii ''update'') = JObj u2"
    and "String_js (nullish (lookupProp u2 (ascii ''sessionUpdate'')) (JStr [])) = ascii ''tool_call_update''"
    and "String_js (nullish (lookupProp u2 (ascii ''toolCallId'')) (JStr [])) = tc"
    and "lookupProp u2 (ascii ''status'') = JStr s" and "s \<noteq> []"
    and "\<not> isArray (lookupProp u2 (ascii ''content''))"
  shows "\<exists>ctrl1 x1.
          onEvent stringify ws now1 rnd1 ev1 ctrl = Done ctrl1 \<and>
          findItem (reducerState ctrl1) sid (ascii ''tool-'' @ sid @ ascii ''-'' @ tc) = Some x1 \<and>
          i_kind x1 = KindTool \<and>
          i_title x1 =
            Some (let kind = String_js (nullish (lookupProp u1 (ascii ''kind'')) (JStr []));
                      title = String_js (nullish (lookupProp u1 (ascii ''title'')) (JStr (ascii ''Tool'')))
                  in if kind = [] then title else kind @ ascii '': '' @ title) \<and>
          i_status x1 =
            Some (String_js (nullish (lookupProp u1 (ascii ''status'')) (JStr (ascii ''pending'')))) \<and>
          i_detail x1 =
            Some (truncated 4000 (join newline (filterBoolean
                    [Some (String_js (nullish (lookupProp u1 (ascii ''kind'')) (JStr []))),
                     if truthy (lookupProp u1 (ascii ''rawInput''))
                     then stringify (lookupProp u1 (ascii ''rawInput'')) else Some []]))) \<and>
          (\<exists>ctrl2 idx.
             onEvent stringify ws now2 rnd2 ev2 ctrl1 = Done ctrl2 \<and>
             findItem (reducerState ctrl2) sid (ascii ''tool-'' @ sid @ ascii ''-'' @ tc)
               = Some (x1\<lparr>i_status := Some s\<rparr>) \<and>
             idx < length (sessionItems (reducerState ctrl1) sid) \<and>
             sessionItems (reducerState ctrl1) sid ! idx = x1 \<and>
             ctrl2 = ctrl1\<lparr>reducerState :=
                       setItems (reducerState ctrl1) sid
                         ((sessionItems (reducerState ctrl1) sid)[idx := x1\<lparr>i_status := Some s\<rparr>])\<rparr>)"
proof -
  let ?iid = "ascii ''tool-'' @ sid @ ascii ''-'' @ tc"
  let ?c1 = "toolCallUpdate stringify now1 sid (ascii ''tool_call'') (JObj u1) ctrl"
  have e1: "onEvent stringify ws now1 rnd1 ev1 ctrl = Done ?c1"
    using assms(1-6,8) by (intro onEvent_tool_update) auto
  from toolCallUpdate_tool_call[OF assms(7,9), of stringify now1 sid ctrl]
  obtain x1 where x1: "findItem (reducerState ?c1) sid ?iid = Some x1" "i_kind x1 = KindTool"
    "i_title x1 =
            Some (let kind = String_js (nullish (lookupProp u1 (ascii ''kind'')) (JStr []));
                      title = String_js (nullish (lookupProp u1 (ascii ''title'')) (JStr (ascii ''Tool'')))
                  in if kind = [] then title else kind @ ascii '': '' @ title)"
    "i_status x1 =
            Some (String_js (nullish (lookupProp u1 (ascii ''status'')) (JStr (ascii ''pending''))))"
    "i_detail x1 =
            Some (truncated 4000 (join newline (filterBoolean
                    [Some (String_js (nullish (lookupProp u1 (ascii ''kind'')) (JStr []))),
                     if truthy (lookupProp u1 (ascii ''rawInput''))
                     then stringify (lookupProp u1 (ascii ''rawInput'')) else Some []])))"
    unfolding toolItemShows_def by blast
  let ?c2 = "dispatch now2 (SetToolStatus sid ?iid s) ?c1"
  have "onEvent stringify ws now2 rnd2 ev2 ?c1 =
          Done (toolCallUpdate stringify now2 sid (ascii ''tool_call_update'') (JObj u2) ?c1)"
    using assms(10-15,8) by (intro onEvent_tool_update) auto
  then have e2: "onEvent stringify ws now2 rnd2 ev2 ?c1 = Done ?c2"
    using toolCallUpdate_status_only[OF assms(16,9,17,18,19)] by simp
  have f2: "findItem (reducerState ?c2) sid ?iid = Some (x1\<lparr>i_status := Some s\<rparr>)"
    using tool_status_exact[OF x1(1,2), of now2 s] by (simp add: dispatch_def)
  from set_status_patch[OF x1(1,2), of now2 s] obtain idx where
    idx: "idx < length (sessionItems (reducerState ?c1) sid)"
         "sessionItems (reducerState ?c1) sid ! idx = x1"
         "sessionReducer now2 (reducerState ?c1) (SetToolStatus sid ?iid s) =
            setItems (reducerState ?c1) sid
              ((sessionItems (reducerState ?c1) sid)[idx := x1\<lparr>i_status := Some s\<rparr>])"
    by blast
  have c2: "?c2 = ?c1\<lparr>reducerState :=
                       setItems (reducerState ?c1) sid
                         ((sessionItems (reducerState ?c1) sid)[idx := x1\<lparr>i_status := Some s\<rparr>])\<rparr>"
    using idx(3) by (simp add: dispatch_def)
  show ?thesis
    using e1 x1 e2 f2 idx(1,2) c2 by blast
qed

theorem tool_call_decoding_witness:
  "\<exists>ctrl1 x1.
     onEvent (\<lambda>v. None) (ascii ''w'') 1 (ascii ''k3x9ab'')
       \<lparr>e_workspaceId = ascii ''w'', e_method = ascii ''session/update'',
        e_params = JObj [(ascii ''sessionId'', JStr (ascii ''s1'')),
                         (ascii ''update'', JObj [(ascii ''sessionUpdate'', JStr (ascii ''tool_call'')),
                                                  (ascii ''toolCallId'', JStr (ascii ''c1'')),
                                                  (ascii ''kind'', JStr (ascii ''execute'')),
                                                  (ascii ''title'', JStr (ascii ''run tests''))])]\<rparr>
       initialController = Done ctrl1 \<and>
     findItem (reducerState ctrl1) (ascii ''s1'') (ascii ''tool-s1-c1'') = Some x1 \<and>
     i_kind x1 = KindTool \<and>
     i_title x1 = Some (ascii ''execute: run tests'') \<and>
     i_status x1 = Some (ascii ''pending'') \<and>
     i_detail x1 = Some (ascii ''execute'') \<and>
     (\<exists>ctrl2.
        onEvent (\<lambda>v. None) (ascii ''w'') 2 (ascii ''p0q1r2'')
          \<lparr>e_workspaceId = ascii ''w'', e_method = ascii ''session/update'',
           e_params = JObj [(ascii ''sessionId'', JStr (ascii ''s1'')),
                            (ascii ''update'', JObj [(ascii ''sessionUpdate'', JStr (ascii ''tool_call_update'')),
                                                     (ascii ''toolCallId'', JStr (ascii ''c1'')),
                                                     (ascii ''status'', JStr (ascii ''completed''))])]\<rparr>
          ctrl1 = Done ctrl2 \<and>
        findItem (reducerState ctrl2) (ascii ''s1'') (ascii ''tool-s1-c1'')
          = Some (x1\<lparr>i_status := Some (ascii ''completed'')\<rparr>))"
proof -
  let ?u1 = "[(ascii ''sessionUpdate'', JStr (ascii ''tool_call'')),
              (ascii ''toolCallId'', JStr (ascii ''c1'')),
              (ascii ''kind'', JStr (ascii ''execute'')),
              (ascii ''title'', JStr (ascii ''run tests''))]"
  let ?ps1 = "[(ascii ''sessionId'', JStr (ascii ''s1'')), (ascii ''update'', JObj ?u1)]"
  let ?ev1 = "\<lparr>e_workspaceId = ascii ''w'', e_method = ascii ''session/update'', e_params = JObj ?ps1\<rparr>"
  let ?u2 = "[(ascii ''sessionUpdate'', JStr (ascii ''tool_call_update'')),
              (ascii ''toolCallId'', JStr (ascii ''c1'')),
              (ascii ''status'', JStr (ascii ''completed''))]"
  let ?ps2 = "[(ascii ''sessionId'', JStr (ascii ''s1'')), (ascii ''update'', JObj ?u2)]"
  let ?ev2 = "\<lparr>e_workspaceId = ascii ''w'', e_method = ascii ''session/update'', e_params = JObj ?ps2\<rparr>"
  have h1: "e_workspaceId ?ev1 = ascii ''w''" by simp
  have h2: "e_method ?ev1 = ascii ''session/update''" by simp
  have h3: "e_params ?ev1 = JObj ?ps1" by simp
  have h4: "String_js (nullish (lookupProp ?ps1 (ascii ''sessionId'')) (JStr [])) = ascii ''s1''"
    by (simp add: lookupProp_def nullish_def)
  have h5: "lookupProp ?ps1 (ascii ''update'') = JObj ?u1" by (simp add: lookupProp_def)
  have h6: "String_js (nullish (lookupProp ?u1 (ascii ''sessionUpdate'')) (JStr [])) = ascii ''tool_call''"
    by (simp add: lookupProp_def nullish_def)
  have h7: "String_js (nullish (lookupProp ?u1 (ascii ''toolCallId'')) (JStr [])) = ascii ''c1''"
    by (simp add: lookupProp_def nullish_def)
  have h8: "ascii ''s1'' \<noteq> []" by (simp add: ascii_def)
  have h9: "ascii ''c1'' \<noteq> []" by (simp add: ascii_def)
  have h10: "e_workspaceId ?ev2 = ascii ''w''" by simp
  have h11: "e_method ?ev2 = ascii ''session/update''" by simp
  have h12: "e_params ?ev2 = JObj ?ps2" by simp
  have h13: "String_js (nullish (lookupProp ?ps2 (ascii ''sessionId'')) (JStr [])) = ascii ''s1''"
    by (simp add: lookupProp_def nullish_def)
  have h14: "lookupProp ?ps2 (ascii ''update'') = JObj ?u2" by (simp add: lookupProp_def)
  have h15: "String_js (nullish (lookupProp ?u2 (ascii ''sessionUpdate'')) (JStr [])) = ascii ''tool_call_update''"
    by (simp add: lookupProp_def nullish_def)
  have h16: "String_js (nullish (lookupProp ?u2 (ascii ''toolCallId'')) (JStr [])) = ascii ''c1''"
    by (simp add: lookupProp_def nullish_def)
  have h17: "lookupProp ?u2 (ascii ''status'') = JStr (ascii ''completed'')" by (simp add: lookupProp_def)
  have h18: "ascii ''completed'' \<noteq> []" by (simp add: ascii_def)
  have h19: "\<not> isArray (lookupProp ?u2 (ascii ''content''))" by (simp add: lookupProp_def)
  have id: "ascii ''tool-'' @ ascii ''s1'' @ ascii ''-'' @ ascii ''c1'' = ascii ''tool-s1-c1''"
    by (simp add: ascii_def)
  have t: "(let kind = String_js (nullish (lookupProp ?u1 (ascii ''kind'')) (JStr []));
                title = String_js (nullish (lookupProp ?u1 (ascii ''title'')) (JStr (ascii ''Tool'')))
            in if kind = [] then title else kind @ ascii '': '' @ title) = ascii ''execute: run tests''"
    by (simp add: lookupProp_def nullish_def ascii_def)
  have st: "String_js (nullish (lookupProp ?u1 (ascii ''status'')) (JStr (ascii ''pending''))) = ascii ''pending''"
    by (simp add: lookupProp_def nullish_def)
  have d: "truncated 4000 (join newline (filterBoolean
                    [Some (String_js (nullish (lookupProp ?u1 (ascii ''kind'')) (JStr []))),
                     if truthy (lookupProp ?u1 (ascii ''rawInput''))
                     then (\<lambda>v. None) (lookupProp ?u1 (ascii ''rawInput'')) else Some []])) = ascii ''execute''"
    by (simp add: lookupProp_def nullish_def filterBoolean_def List.map_filter_simps truncated_def ascii_def)
  from tool_call_decoding[OF h1 h2 h3 h4 h5 h6 h7 h8 h9 h10 h11 h12 h13 h14 h15 h16 h17 h18 h19,
         where stringify = "\<lambda>v. None" and ctrl = initialController and ?now1.0 = 1 and ?now2.0 = 2
           and ?rnd1.0 = "ascii ''k3x9ab''" and ?rnd2.0 = "ascii ''p0q1r2''"]
  show ?thesis unfolding id t st d by blast
qed

section \<open>Loading the baseline\<close>

text \<open>
  The baseline the hook captures itself is well-formed, and on it the summary runs as
  the typed \<open>buildSummary\<close>.
\<close>

lemma wellFormed_fresh: "wellFormedBaseline (baselineValueOf now snap)"
  by (simp add: wellFormedBaseline_def baselineValueOf_def field_def lookupProp_def isNumber_def)

lemma typedBaseline_fresh:
  "typedBaseline (baselineValueOf now snap) = \<lparr>openedAt = now, activity = snap\<rparr>"
  by (simp add: typedBaseline_def baselineValueOf_def field_def lookupProp_def numberOf_def)

lemma buildSummaryOn_fresh:
  "buildSummaryOn (baselineValueOf now snap) current p a h
     = Done (buildSummary (Some \<lparr>openedAt = now, activity = snap\<rparr>) current p a h)"
proof -
  have t: "truthy (baselineValueOf now snap)" by (simp add: baselineValueOf_def)
  have act: "getProp (field (baselineValueOf now snap) (ascii ''activity'')) (ascii ''messageCount'')
               = Inr (JNum (messageCount snap))"
    by (simp add: getProp_def baselineValueOf_def field_def lookupProp_def)
  show ?thesis
    by (simp add: buildSummaryOn_def t withProp_def act wellFormed_fresh typedBaseline_fresh
          buildSummary_def)
qed

text \<open>
  What the effect does while the storage works: a stored entry that is present,
  non-empty and parses is adopted as it is, whatever its shape, and the storage is left
  alone; an entry that is missing, empty or does not parse gives way to a fresh baseline,
  captured from the current snapshot and written under the key.
\<close>

lemma loadBaseline_usable_storage:
  assumes "nonEmpty workspaceId = Some w" and "nonEmpty i = Some sid"
    and "\<not> ls_accessDenied localStorage" and "\<not> ls_full localStorage"
  shows "(\<forall>s v. ls_entries localStorage (baselineKey k w sid) = Some s \<and> s \<noteq> [] \<and> parse s = Some v \<longrightarrow>
            loadBaseline parse stringify k workspaceId i now latestItems latestPlan localStorage
              = Inr (localStorage, v)) \<and>
         ((ls_entries localStorage (baselineKey k w sid) = None \<or>
           ls_entries localStorage (baselineKey k w sid) = Some [] \<or>
           (\<exists>s. ls_entries localStorage (baselineKey k w sid) = Some s \<and> parse s = None)) \<longrightarrow>
            loadBaseline parse stringify k workspaceId i now latestItems latestPlan localStorage
              = Inr (localStorage\<lparr>ls_entries := (ls_entries localStorage)(baselineKey k w sid \<mapsto>
                       orUndefined (stringify (baselineValueOf now (snapshotActivity latestItems latestPlan))))\<rparr>,
                     baselineValueOf now (snapshotActivity latestItems latestPlan)))"
  using assms
  by (auto simp: loadBaseline_def getItem_def setItem_def Let_def nonEmpty_def
      split: option.splits if_splits)

text \<open>
  Claim C8 says that a stored baseline is adopted only if it is well-formed, that any
  malformed or missing entry is treated as absent, so that a fresh baseline is captured
  and persisted, and that such an entry never causes a fault. The code breaks it. The
  stored text \<open>{}\<close> parses, so the effect adopts the object without \<open>openedAt\<close> and
  without counters and returns before capturing a fresh baseline; at the next render of a
  session with an item, \<open>buildSummary\<close> reads \<open>baseline.activity.messageCount\<close> and
  throws a \<open>TypeError\<close>. Moreover \<open>localStorage.getItem\<close> and \<open>localStorage.setItem\<close> are
  called outside the \<open>try\<close>: a storage that refuses access makes the effect throw for
  every stored entry, and a full storage makes it throw when the entry is missing and the
  fresh baseline is to be persisted.
\<close>

theorem malformed_baseline_faults:
  "\<not> wellFormedBaseline (JObj []) \<and>
   loadBaseline (\<lambda>s. if s = ascii ''{}'' then Some (JObj []) else None) stringify Session
      (Some (ascii ''w'')) (Some (ascii ''s'')) now
      [(item (ascii ''t1'') KindTool)\<lparr>i_title := Some (ascii ''Tool'')\<rparr>] None
      \<lparr>ls_entries = [baselineKey Session (ascii ''w'') (ascii ''s'') \<mapsto> ascii ''{}''],
       ls_accessDenied = False, ls_full = False\<rparr>
     = Inr (\<lparr>ls_entries = [baselineKey Session (ascii ''w'') (ascii ''s'') \<mapsto> ascii ''{}''],
             ls_accessDenied = False, ls_full = False\<rparr>, JObj []) \<and>
   tldrSummary (JObj []) [(item (ascii ''t1'') KindTool)\<lparr>i_title := Some (ascii ''Tool'')\<rparr>] None
      processing approvalPending = Raised TypeError \<and>
   loadBaseline parse stringify Session (Some (ascii ''w'')) (Some (ascii ''s'')) now latestItems latestPlan
      \<lparr>ls_entries = stored, ls_accessDenied = True, ls_full = f\<rparr>
     = Inl SecurityError \<and>
   loadBaseline parse stringify Session (Some (ascii ''w'')) (Some (ascii ''s'')) now latestItems latestPlan
      \<lparr>ls_entries = Map.empty, ls_accessDenied = False, ls_full = True\<rparr>
     = Inl QuotaExceededError"
  by (simp add: wellFormedBaseline_def field_def lookupProp_def isNumber_def loadBaseline_def
        getItem_def setItem_def nonEmpty_def Let_def tldrSummary_def buildSummaryOn_def
        withProp_def getProp_def)

end
